theory Spec2Isabelle
  imports Main "HOL-Library.Word" "HOL-Library.Sublist"
begin

section \<open>Values shared by all components\<close>

text \<open>
  A \<open>Buffer\<close> is a sequence of octets. JavaScript numbers that carry issue numbers, pull
  request numbers and lamport amounts are modelled by the integers. A thrown exception is
  a value of type \<open>error\<close>; the constructor records which kind of exception it is and the
  argument is its \<open>message\<close>. The messages of exceptions that the runtime and the libraries
  raise are abridged; no result below depends on them.
\<close>

type_synonym byte = "8 word"
type_synonym Buffer = "byte list"
type_synonym PublicKey = "256 word"

datatype error = Error string | RangeError string | TypeError string | BorshError string

fun message :: "error \<Rightarrow> string" where
  "message (Error m) = m"
| "message (RangeError m) = m"
| "message (TypeError m) = m"
| "message (BorshError m) = m"

text \<open>\<open>Buffer.from(s)\<close> for a string: its octets.\<close>

definition Buffer_from :: "string \<Rightarrow> Buffer" where
  "Buffer_from s = map (\<lambda>c. of_char c) s"

section \<open>utils/helpers.ts: numberToLeBytes\<close>

text \<open>
  The eight octets of an unsigned 64-bit value, least significant first, as
  \<open>writeBigUInt64LE\<close> lays them out.
\<close>

definition u64_le :: "int \<Rightarrow> Buffer" where
  "u64_le v = map (\<lambda>i. word_of_int (v div 256 ^ i)) [0..<8]"

text \<open>
  \<open>numberToLeBytes\<close>: \<open>buffer.writeBigUInt64LE(BigInt(num))\<close> raises a range error when the
  value is negative or does not fit 64 bits.
\<close>

definition numberToLeBytes :: "int \<Rightarrow> error + Buffer" where
  "numberToLeBytes num =
     (if 0 \<le> num \<and> num < 2 ^ 64 then Inr (u64_le num)
      else Inl (RangeError ''The value of value is out of range.''))"

section \<open>core/schemas.ts and the instruction encoder\<close>

datatype field_type = FixedArray nat | U64

datatype field_value = Bytes Buffer | BigInt int

type_synonym schema = "(string \<times> field_type) list"

type_synonym instruction_object = "string \<Rightarrow> field_value option"

definition CreateEscrowInstruction :: "Buffer \<Rightarrow> int \<Rightarrow> int \<Rightarrow> instruction_object" where
  "CreateEscrowInstruction repo_hash issue_number amount =
     [''repo_hash'' \<mapsto> Bytes repo_hash,
      ''issue_number'' \<mapsto> BigInt issue_number,
      ''amount'' \<mapsto> BigInt amount]"

definition CreateEscrowSchema :: schema where
  "CreateEscrowSchema =
     [(''repo_hash'', FixedArray 32), (''issue_number'', U64), (''amount'', U64)]"

definition ReleaseEscrowInstruction :: "Buffer \<Rightarrow> int \<Rightarrow> instruction_object" where
  "ReleaseEscrowInstruction repo_hash issue_number =
     [''repo_hash'' \<mapsto> Bytes repo_hash,
      ''issue_number'' \<mapsto> BigInt issue_number]"

definition ReleaseEscrowSchema :: schema where
  "ReleaseEscrowSchema = [(''repo_hash'', FixedArray 32), (''issue_number'', U64)]"

text \<open>The enum \<open>InstructionDiscriminator\<close>.\<close>

definition InstructionDiscriminator_CreateEscrow :: byte where
  "InstructionDiscriminator_CreateEscrow = 0"

definition InstructionDiscriminator_ReleaseEscrow :: byte where
  "InstructionDiscriminator_ReleaseEscrow = 1"

text \<open>
  Modelled from the spec: \<open>serialize\<close> is the function of the borsh package, which is not
  part of the repository. Following section 4.3 of the specification it writes the fields
  of the schema in their order, a fixed array of \<open>n\<close> octets as those \<open>n\<close> octets and a
  \<open>u64\<close> as eight octets least significant first, with no length prefix and no padding.
  A field that is absent, of the wrong kind, of the wrong length or outside the range of
  its type is rejected.
\<close>

fun serializeField :: "field_type \<Rightarrow> field_value option \<Rightarrow> error + Buffer" where
  "serializeField (FixedArray n) (Some (Bytes bs)) =
     (if length bs = n then Inr bs
      else Inl (BorshError ''Expecting byte array of a different length''))"
| "serializeField U64 (Some (BigInt v)) =
     (if 0 \<le> v \<and> v < 2 ^ 64 then Inr (u64_le v)
      else Inl (BorshError ''Value does not fit u64''))"
| "serializeField _ _ = Inl (BorshError ''Unexpected field value'')"

fun serialize :: "schema \<Rightarrow> instruction_object \<Rightarrow> error + Buffer" where
  "serialize [] obj = Inr []"
| "serialize ((name, ty) # fields) obj =
     (case serializeField ty (obj name) of
        Inl e \<Rightarrow> Inl e
      | Inr bs \<Rightarrow>
          (case serialize fields obj of
             Inl e \<Rightarrow> Inl e
           | Inr rest \<Rightarrow> Inr (bs @ rest)))"

text \<open>
  Lines 62 to 73 and 123 to 133 of SolanaProvider.ts: the instruction object is built,
  serialized, and the discriminator octet is put in front.
\<close>

definition encodeCreateEscrow :: "Buffer \<Rightarrow> int \<Rightarrow> int \<Rightarrow> error + Buffer" where
  "encodeCreateEscrow repositoryHash issueNumber amount =
     (case serialize CreateEscrowSchema
             (CreateEscrowInstruction repositoryHash issueNumber amount) of
        Inl e \<Rightarrow> Inl e
      | Inr instructionData \<Rightarrow> Inr (InstructionDiscriminator_CreateEscrow # instructionData))"

definition encodeReleaseEscrow :: "Buffer \<Rightarrow> int \<Rightarrow> error + Buffer" where
  "encodeReleaseEscrow repositoryHash issueNumber =
     (case serialize ReleaseEscrowSchema
             (ReleaseEscrowInstruction repositoryHash issueNumber) of
        Inl e \<Rightarrow> Inl e
      | Inr instructionData \<Rightarrow> Inr (InstructionDiscriminator_ReleaseEscrow # instructionData))"

section \<open>External calls and their log\<close>

text \<open>
  Everything outside the process (the ledger's RPC endpoint, the issue tracker, the
  notification channels) is a world of an arbitrary type \<open>'w\<close>. An external operation
  takes the world and returns its answer, or the exception it raised, with the world it
  leaves behind. The state threaded through a handler is the world paired with the log
  of the calls made so far, oldest first; \<open>logged c op\<close> performs \<open>op\<close> and appends \<open>c\<close>
  to the log.
\<close>

definition logged :: "'c \<Rightarrow> ('w \<Rightarrow> 'r \<times> 'w) \<Rightarrow> 'w \<times> 'c list \<Rightarrow> 'r \<times> ('w \<times> 'c list)" where
  "logged c op s = (case op (fst s) of (r, w') \<Rightarrow> (r, (w', snd s @ [c])))"

text \<open>The calls a handler added to the log between two states.\<close>

definition new_calls :: "'w \<times> 'c list \<Rightarrow> 'w \<times> 'c list \<Rightarrow> 'c list" where
  "new_calls s s' = drop (length (snd s)) (snd s')"

section \<open>providers/payment/SolanaProvider.ts\<close>

record AccountInfo =
  lamports :: int
  owner :: PublicKey
  account_data :: Buffer

record AccountMeta =
  pubkey :: PublicKey
  isSigner :: bool
  isWritable :: bool

record TransactionInstruction =
  keys :: "AccountMeta list"
  instruction_programId :: PublicKey
  instruction_data :: Buffer

record TransactionResult =
  signature :: string
  explorerUrl :: string

text \<open>
  The three operations of the RPC connection that the provider uses. \<open>sendTransaction\<close>
  takes the instructions of the transaction and the public keys of its signers and
  answers with the transaction signature.
\<close>

record 'w Connection =
  getAccountInfo :: "PublicKey \<Rightarrow> 'w \<Rightarrow> (error + AccountInfo option) \<times> 'w"
  sendTransaction ::
    "TransactionInstruction list \<Rightarrow> PublicKey list \<Rightarrow> 'w \<Rightarrow> (error + string) \<times> 'w"
  confirmTransaction :: "string \<Rightarrow> 'w \<Rightarrow> (error + unit) \<times> 'w"

datatype rpc =
  GetAccountInfo PublicKey
| SendTransaction "TransactionInstruction list" "PublicKey list"
| ConfirmTransaction string

record 'w SolanaProvider =
  connection :: "'w Connection"
  payer :: PublicKey
  programId :: PublicKey
  network :: string

text \<open>
  \<open>PublicKey.findProgramAddressSync\<close> belongs to the web3 library and is a parameter of the
  model: from the seeds and the program id it yields the derived address and its bump
  octet, or raises.
\<close>

type_synonym pda_function = "Buffer list \<Rightarrow> PublicKey \<Rightarrow> error + PublicKey \<times> byte"

text \<open>\<open>SystemProgram.programId\<close>: thirty-two zero octets.\<close>

definition SystemProgram_programId :: PublicKey where
  "SystemProgram_programId = 0"

text \<open>
  The seeds \<open>[Buffer.from("escrow"), repositoryHash, numberToLeBytes(issueNumber)]\<close> and
  the derivation, written out identically in \<open>createEscrow\<close>, \<open>releaseEscrow\<close> and
  \<open>escrowExists\<close>.
\<close>

definition escrowSeeds :: "Buffer \<Rightarrow> int \<Rightarrow> error + Buffer list" where
  "escrowSeeds repositoryHash issueNumber =
     (case numberToLeBytes issueNumber of
        Inl e \<Rightarrow> Inl e
      | Inr le \<Rightarrow> Inr [Buffer_from ''escrow'', repositoryHash, le])"

definition deriveEscrowPda :: "pda_function \<Rightarrow> PublicKey \<Rightarrow> Buffer \<Rightarrow> int \<Rightarrow> error + PublicKey" where
  "deriveEscrowPda findProgramAddressSync pid repositoryHash issueNumber =
     (case escrowSeeds repositoryHash issueNumber of
        Inl e \<Rightarrow> Inl e
      | Inr seeds \<Rightarrow>
          (case findProgramAddressSync seeds pid of
             Inl e \<Rightarrow> Inl e
           | Inr (escrowPda, bump) \<Rightarrow> Inr escrowPda))"



definition getExplorerUrl :: "string \<Rightarrow> string \<Rightarrow> string" where
  "getExplorerUrl net sig =
     (let cluster = (if net = ''mainnet-beta'' then [] else ''?cluster='' @ net)
      in ''https://explorer.solana.com/tx/'' @ sig @ cluster)"

definition SolanaProvider_createEscrow ::
  "pda_function \<Rightarrow> 'w SolanaProvider \<Rightarrow> int \<Rightarrow> Buffer \<Rightarrow> int \<Rightarrow> 'w \<times> rpc list
     \<Rightarrow> (error + TransactionResult) \<times> ('w \<times> rpc list)" where
  "SolanaProvider_createEscrow findProgramAddressSync sp issueNumber repositoryHash amount s =
     (case deriveEscrowPda findProgramAddressSync (programId sp) repositoryHash issueNumber of
        Inl e \<Rightarrow> (Inl e, s)
      | Inr escrowPda \<Rightarrow>
          (case logged (GetAccountInfo escrowPda) (getAccountInfo (connection sp) escrowPda) s of
             (Inl e, s1) \<Rightarrow> (Inl e, s1)
           | (Inr (Some accountInfo), s1) \<Rightarrow>
               (Inl (Error ''Escrow already exists for this issue''), s1)
           | (Inr None, s1) \<Rightarrow>
               (case encodeCreateEscrow repositoryHash issueNumber amount of
                  Inl e \<Rightarrow> (Inl e, s1)
                | Inr d \<Rightarrow>
                    (let instruction =
                           \<lparr>keys =
                              [\<lparr>pubkey = payer sp, isSigner = True, isWritable = True\<rparr>,
                               \<lparr>pubkey = escrowPda, isSigner = False, isWritable = True\<rparr>,
                               \<lparr>pubkey = SystemProgram_programId, isSigner = False,
                                isWritable = False\<rparr>],
                            instruction_programId = programId sp,
                            instruction_data = d\<rparr>
                     in case logged (SendTransaction [instruction] [payer sp])
                               (sendTransaction (connection sp) [instruction] [payer sp]) s1 of
                          (Inl e, s2) \<Rightarrow> (Inl e, s2)
                        | (Inr sig, s2) \<Rightarrow>
                            (case logged (ConfirmTransaction sig)
                                    (confirmTransaction (connection sp) sig) s2 of
                               (Inl e, s3) \<Rightarrow> (Inl e, s3)
                             | (Inr u, s3) \<Rightarrow>
                                 (Inr \<lparr>signature = sig,
                                       explorerUrl = getExplorerUrl (network sp) sig\<rparr>,
                                  s3))))))"

definition SolanaProvider_releaseEscrow ::
  "pda_function \<Rightarrow> 'w SolanaProvider \<Rightarrow> int \<Rightarrow> Buffer \<Rightarrow> PublicKey \<Rightarrow> 'w \<times> rpc list
     \<Rightarrow> (error + TransactionResult) \<times> ('w \<times> rpc list)" where
  "SolanaProvider_releaseEscrow findProgramAddressSync sp issueNumber repositoryHash recipient s =
     (case deriveEscrowPda findProgramAddressSync (programId sp) repositoryHash issueNumber of
        Inl e \<Rightarrow> (Inl e, s)
      | Inr escrowPda \<Rightarrow>
          (case logged (GetAccountInfo escrowPda) (getAccountInfo (connection sp) escrowPda) s of
             (Inl e, s1) \<Rightarrow> (Inl e, s1)
           | (Inr None, s1) \<Rightarrow>
               (Inl (Error ''Escrow does not exist for this issue''), s1)
           | (Inr (Some accountInfo), s1) \<Rightarrow>
               (case encodeReleaseEscrow repositoryHash issueNumber of
                  Inl e \<Rightarrow> (Inl e, s1)
                | Inr d \<Rightarrow>
                    (let instruction =
                           \<lparr>keys =
                              [\<lparr>pubkey = escrowPda, isSigner = False, isWritable = True\<rparr>,
                               \<lparr>pubkey = recipient, isSigner = False, isWritable = True\<rparr>,
                               \<lparr>pubkey = payer sp, isSigner = True, isWritable = True\<rparr>],
                            instruction_programId = programId sp,
                            instruction_data = d\<rparr>
                     in case logged (SendTransaction [instruction] [payer sp])
                               (sendTransaction (connection sp) [instruction] [payer sp]) s1 of
                          (Inl e, s2) \<Rightarrow> (Inl e, s2)
                        | (Inr sig, s2) \<Rightarrow>
                            (case logged (ConfirmTransaction sig)
                                    (confirmTransaction (connection sp) sig) s2 of
                               (Inl e, s3) \<Rightarrow> (Inl e, s3)
                             | (Inr u, s3) \<Rightarrow>
                                 (Inr \<lparr>signature = sig,
                                       explorerUrl = getExplorerUrl (network sp) sig\<rparr>,
                                  s3))))))"


section \<open>utils/crypto.ts: verifyGitHubSignature\<close>

text \<open>
  The keyed hash \<open>crypto.createHmac("sha256", secret).update(body).digest()\<close> is a
  parameter of the model: from the secret and the body it yields a digest of 256 bits.
  \<open>digest("hex")\<close> prints the thirty-two octets of the digest, first octet first, as
  sixty-four lower-case hexadecimal digits.
\<close>

type_synonym hmac_function = "string \<Rightarrow> Buffer \<Rightarrow> 256 word"

definition hex_digit :: "nat \<Rightarrow> char" where
  "hex_digit d = ''0123456789abcdef'' ! d"

fun hex_digits :: "nat \<Rightarrow> nat \<Rightarrow> string" where
  "hex_digits 0 v = []"
| "hex_digits (Suc k) v = hex_digits k (v div 16) @ [hex_digit (v mod 16)]"

definition digest_hex :: "256 word \<Rightarrow> string" where
  "digest_hex w = hex_digits 64 (unat w)"

text \<open>
  \<open>crypto.timingSafeEqual\<close> of the Node runtime raises a range error when the two buffers
  differ in length and compares them otherwise.
\<close>

definition timingSafeEqual :: "Buffer \<Rightarrow> Buffer \<Rightarrow> error + bool" where
  "timingSafeEqual a b =
     (if length a \<noteq> length b
      then Inl (RangeError ''Input buffers must have the same byte length'')
      else Inr (a = b))"

definition verifyGitHubSignature :: "hmac_function \<Rightarrow> Buffer \<Rightarrow> string \<Rightarrow> string \<Rightarrow> error + bool" where
  "verifyGitHubSignature hmac body sig secret =
     (if sig = [] \<or> secret = [] then Inr False
      else (let expected = ''sha256='' @ digest_hex (hmac secret body)
            in timingSafeEqual (Buffer_from sig) (Buffer_from expected)))"


section \<open>Strings\<close>

text \<open>
  A string is the sequence of the octets of its UTF-8 encoding, so \<open>Buffer.from\<close> keeps
  its length. Letters are compared without case within ASCII only, as a regular expression
  with the flag \<open>i\<close> and without the flag \<open>u\<close> does for a pattern of ASCII letters.
\<close>

definition NL :: string where
  "NL = [CHR 0x0A]"

definition DQ :: string where
  "DQ = [CHR 0x22]"

definition digit_char :: "nat \<Rightarrow> char" where
  "digit_char d = ''0123456789'' ! d"

fun decimal :: "nat \<Rightarrow> string" where
  "decimal n = (if n < 10 then [digit_char n] else decimal (n div 10) @ [digit_char (n mod 10)])"

declare decimal.simps [simp del]

text \<open>The text of an integral number inside a template literal.\<close>

definition number_text :: "int \<Rightarrow> string" where
  "number_text n = (if n < 0 then ''-'' @ decimal (nat (- n)) else decimal (nat n))"

text \<open>
  The characters that the class \<open>\s\<close> of a regular expression matches, each as the octets
  of its UTF-8 encoding: tab, line feed, vertical tab, form feed, carriage return, space,
  U+00A0, U+1680, U+2000 to U+200A, U+2028, U+2029, U+202F, U+205F, U+3000 and U+FEFF.
\<close>

definition white_space :: "string list" where
  "white_space =
     [[CHR 0x09], [CHR 0x0A], [CHR 0x0B], [CHR 0x0C], [CHR 0x0D], [CHR 0x20],
      [CHR 0xC2, CHR 0xA0],
      [CHR 0xE1, CHR 0x9A, CHR 0x80],
      [CHR 0xE2, CHR 0x80, CHR 0x80], [CHR 0xE2, CHR 0x80, CHR 0x81],
      [CHR 0xE2, CHR 0x80, CHR 0x82], [CHR 0xE2, CHR 0x80, CHR 0x83],
      [CHR 0xE2, CHR 0x80, CHR 0x84], [CHR 0xE2, CHR 0x80, CHR 0x85],
      [CHR 0xE2, CHR 0x80, CHR 0x86], [CHR 0xE2, CHR 0x80, CHR 0x87],
      [CHR 0xE2, CHR 0x80, CHR 0x88], [CHR 0xE2, CHR 0x80, CHR 0x89],
      [CHR 0xE2, CHR 0x80, CHR 0x8A],
      [CHR 0xE2, CHR 0x80, CHR 0xA8], [CHR 0xE2, CHR 0x80, CHR 0xA9],
      [CHR 0xE2, CHR 0x80, CHR 0xAF],
      [CHR 0xE2, CHR 0x81, CHR 0x9F],
      [CHR 0xE3, CHR 0x80, CHR 0x80],
      [CHR 0xEF, CHR 0xBB, CHR 0xBF]]"

text \<open>
  The number of octets of the white-space character that \<open>s\<close> starts with, and 0 when it
  starts with none.
\<close>

definition space_at :: "string \<Rightarrow> nat" where
  "space_at s =
     (case filter (\<lambda>w. prefix w s) white_space of [] \<Rightarrow> 0 | w # ws \<Rightarrow> length w)"

text \<open>
  \<open>s.split(/\s+/)\<close>: the pieces of \<open>s\<close> between maximal runs of white space; a run at the
  start or at the end of \<open>s\<close> leaves an empty piece there.
\<close>

fun split_from :: "string \<Rightarrow> string \<Rightarrow> string list"
  and skip_space :: "string \<Rightarrow> string list" where
  "split_from cur [] = [cur]"
| "split_from cur (c # cs) =
     (if 0 < space_at (c # cs) then cur # skip_space (drop (space_at (c # cs)) (c # cs))
      else split_from (cur @ [c]) cs)"
| "skip_space [] = [Nil]"
| "skip_space (c # cs) =
     (if 0 < space_at (c # cs) then skip_space (drop (space_at (c # cs)) (c # cs))
      else split_from [c] cs)"

definition split_whitespace :: "string \<Rightarrow> string list" where
  "split_whitespace s = split_from [] s"

definition toLowerAscii :: "char \<Rightarrow> char" where
  "toLowerAscii c =
     (if (65::nat) \<le> of_char c \<and> of_char c \<le> (90::nat)
      then char_of (of_char c + (32::nat)) else c)"

definition startsWith_ignoring_case :: "string \<Rightarrow> string \<Rightarrow> bool" where
  "startsWith_ignoring_case p s =
     (length p \<le> length s \<and> map toLowerAscii (take (length p) s) = map toLowerAscii p)"

section \<open>core/types.ts\<close>

datatype issue_state = Open | Closed

record PullRequest =
  pr_number :: int
  pr_title :: "string option"
  pr_body :: "string option"
  pr_state :: issue_state
  merged :: bool
  user_login :: string

text \<open>
  What \<open>bountyConfig[label]\<close> reads and the handlers pass on as the amount: the number of
  lamports of an entry of the table, or, for a label that the table does not hold and
  that is the name of a property of \<open>Object.prototype\<close>, that inherited property, which is a
  function or an object and not a number.
\<close>

datatype property = Lamports int | Inherited string

record LinkedIssue =
  li_number :: int
  bountyAmount :: property
  li_label :: string

record ClaimValidation =
  isValid :: bool
  linkedIssue :: "LinkedIssue option"
  errors :: "string list"

datatype event_type = Bounty_created | Bounty_claimed | Assignment

record NotificationData =
  nd_repository :: string
  nd_issueNumber :: int
  nd_prNumber :: "int option"
  contributor :: string
  nd_amount :: property
  transactionUrl :: string
  eventType :: event_type

text \<open>
  The label table, a plain object, by its own entries: \<open>None\<close> for a label that is not
  among them.
\<close>

type_synonym BountyConfig = "string \<Rightarrow> int option"

text \<open>The three optional flags; \<open>None\<close> is a flag the configuration leaves out.\<close>

record SecurityConfig =
  skipAssignmentCheck :: "bool option"
  requireMergedPR :: "bool option"
  requireMaintainerForBountyCreation :: "bool option"

record WebhookPayload =
  action :: "string option"
  issue_number :: "int option"
  issue_pull_request :: bool
  label_name :: "string option"
  comment_body :: "string option"
  comment_user_login :: "string option"
  sender_login :: "string option"
  repository_full_name :: "string option"

text \<open>
  The provider interfaces. Each asynchronous method is an external operation on the
  world; \<open>getRepositoryHash\<close> and \<open>parseWalletAddress\<close> are synchronous and leave the world
  alone.
\<close>

record 'w IIssueProvider =
  postComment :: "string \<Rightarrow> int \<Rightarrow> string \<Rightarrow> 'w \<Rightarrow> (error + unit) \<times> 'w"
  assignIssue :: "string \<Rightarrow> int \<Rightarrow> string \<Rightarrow> 'w \<Rightarrow> (error + unit) \<times> 'w"
  getPullRequest :: "string \<Rightarrow> int \<Rightarrow> 'w \<Rightarrow> (error + PullRequest) \<times> 'w"
  findLinkedIssueWithBounty ::
    "string \<Rightarrow> int \<Rightarrow> PullRequest \<Rightarrow> BountyConfig \<Rightarrow> 'w \<Rightarrow> (error + LinkedIssue option) \<times> 'w"
  wasUserEverAssigned :: "string \<Rightarrow> int \<Rightarrow> string \<Rightarrow> 'w \<Rightarrow> (error + bool) \<times> 'w"
  isBountyAlreadyClaimed :: "string \<Rightarrow> int \<Rightarrow> 'w \<Rightarrow> (error + bool) \<times> 'w"
  checkIsMaintainer :: "string \<Rightarrow> string \<Rightarrow> 'w \<Rightarrow> (error + bool) \<times> 'w"

record 'w IPaymentProvider =
  createEscrow :: "int \<Rightarrow> Buffer \<Rightarrow> property \<Rightarrow> 'w \<Rightarrow> (error + TransactionResult) \<times> 'w"
  releaseEscrow :: "int \<Rightarrow> Buffer \<Rightarrow> PublicKey \<Rightarrow> 'w \<Rightarrow> (error + TransactionResult) \<times> 'w"
  escrowExists :: "int \<Rightarrow> Buffer \<Rightarrow> 'w \<Rightarrow> (error + bool) \<times> 'w"
  getRepositoryHash :: "string \<Rightarrow> Buffer"
  parseWalletAddress :: "string \<Rightarrow> error + PublicKey"

record 'w INotificationProvider =
  notify :: "NotificationData \<Rightarrow> 'w \<Rightarrow> (error + unit) \<times> 'w"
  getName :: string

text \<open>The calls of the orchestrator on its providers, as they appear in the log.\<close>

datatype call =
  PostComment string int string
| AssignIssue string int string
| GetPullRequest string int
| FindLinkedIssueWithBounty string int
| WasUserEverAssigned string int string
| IsBountyAlreadyClaimed string int
| CheckIsMaintainer string string
| CreateEscrow int Buffer property
| ReleaseEscrow int Buffer PublicKey
| EscrowExists int Buffer
| GetRepositoryHash string
| ParseWalletAddress string
| Notify string NotificationData

fun is_payment_call :: "call \<Rightarrow> bool" where
  "is_payment_call (CreateEscrow n h a) = True"
| "is_payment_call (ReleaseEscrow n h k) = True"
| "is_payment_call (EscrowExists n h) = True"
| "is_payment_call (GetRepositoryHash r) = True"
| "is_payment_call (ParseWalletAddress a) = True"
| "is_payment_call c = False"

fun is_escrow_call :: "call \<Rightarrow> bool" where
  "is_escrow_call (CreateEscrow n h a) = True"
| "is_escrow_call (ReleaseEscrow n h k) = True"
| "is_escrow_call (EscrowExists n h) = True"
| "is_escrow_call c = False"

fun is_validation_call :: "call \<Rightarrow> bool" where
  "is_validation_call (GetPullRequest r n) = True"
| "is_validation_call (FindLinkedIssueWithBounty r n) = True"
| "is_validation_call (WasUserEverAssigned r n u) = True"
| "is_validation_call (IsBountyAlreadyClaimed r n) = True"
| "is_validation_call c = False"

text \<open>
  The calls of the five checks in their order, for a linked issue with the number \<open>n\<close>;
  the second check makes no call, and the fourth makes none when it is skipped.
\<close>

definition validation_calls :: "SecurityConfig \<Rightarrow> string \<Rightarrow> int \<Rightarrow> string \<Rightarrow> int \<Rightarrow> call list" where
  "validation_calls config repo prNumber commenter n =
     [GetPullRequest repo prNumber, FindLinkedIssueWithBounty repo prNumber]
     @ (if skipAssignmentCheck config = Some True then []
        else [WasUserEverAssigned repo n commenter])
     @ [IsBountyAlreadyClaimed repo n]"

fun is_release :: "call \<Rightarrow> bool" where
  "is_release (ReleaseEscrow n h k) = True"
| "is_release c = False"

text \<open>A method of a provider, called on the world and entered in the log.\<close>

definition call_postComment ::
  "'w IIssueProvider \<Rightarrow> string \<Rightarrow> int \<Rightarrow> string \<Rightarrow> 'w \<times> call list
     \<Rightarrow> (error + unit) \<times> ('w \<times> call list)" where
  "call_postComment ip repo n c s = logged (PostComment repo n c) (postComment ip repo n c) s"

definition call_getPullRequest ::
  "'w IIssueProvider \<Rightarrow> string \<Rightarrow> int \<Rightarrow> 'w \<times> call list
     \<Rightarrow> (error + PullRequest) \<times> ('w \<times> call list)" where
  "call_getPullRequest ip repo n s = logged (GetPullRequest repo n) (getPullRequest ip repo n) s"

definition call_findLinkedIssueWithBounty ::
  "'w IIssueProvider \<Rightarrow> string \<Rightarrow> int \<Rightarrow> PullRequest \<Rightarrow> BountyConfig \<Rightarrow> 'w \<times> call list
     \<Rightarrow> (error + LinkedIssue option) \<times> ('w \<times> call list)" where
  "call_findLinkedIssueWithBounty ip repo n prData bc s =
     logged (FindLinkedIssueWithBounty repo n) (findLinkedIssueWithBounty ip repo n prData bc) s"

definition call_wasUserEverAssigned ::
  "'w IIssueProvider \<Rightarrow> string \<Rightarrow> int \<Rightarrow> string \<Rightarrow> 'w \<times> call list
     \<Rightarrow> (error + bool) \<times> ('w \<times> call list)" where
  "call_wasUserEverAssigned ip repo n u s =
     logged (WasUserEverAssigned repo n u) (wasUserEverAssigned ip repo n u) s"

definition call_isBountyAlreadyClaimed ::
  "'w IIssueProvider \<Rightarrow> string \<Rightarrow> int \<Rightarrow> 'w \<times> call list
     \<Rightarrow> (error + bool) \<times> ('w \<times> call list)" where
  "call_isBountyAlreadyClaimed ip repo n s =
     logged (IsBountyAlreadyClaimed repo n) (isBountyAlreadyClaimed ip repo n) s"

definition call_checkIsMaintainer ::
  "'w IIssueProvider \<Rightarrow> string \<Rightarrow> string \<Rightarrow> 'w \<times> call list
     \<Rightarrow> (error + bool) \<times> ('w \<times> call list)" where
  "call_checkIsMaintainer ip repo u s =
     logged (CheckIsMaintainer repo u) (checkIsMaintainer ip repo u) s"

definition call_createEscrow ::
  "'w IPaymentProvider \<Rightarrow> int \<Rightarrow> Buffer \<Rightarrow> property \<Rightarrow> 'w \<times> call list
     \<Rightarrow> (error + TransactionResult) \<times> ('w \<times> call list)" where
  "call_createEscrow pp n h a s = logged (CreateEscrow n h a) (createEscrow pp n h a) s"

definition call_releaseEscrow ::
  "'w IPaymentProvider \<Rightarrow> int \<Rightarrow> Buffer \<Rightarrow> PublicKey \<Rightarrow> 'w \<times> call list
     \<Rightarrow> (error + TransactionResult) \<times> ('w \<times> call list)" where
  "call_releaseEscrow pp n h k s = logged (ReleaseEscrow n h k) (releaseEscrow pp n h k) s"

definition call_getRepositoryHash ::
  "'w IPaymentProvider \<Rightarrow> string \<Rightarrow> 'w \<times> call list \<Rightarrow> Buffer \<times> ('w \<times> call list)" where
  "call_getRepositoryHash pp repo s =
     logged (GetRepositoryHash repo) (\<lambda>w. (getRepositoryHash pp repo, w)) s"

definition call_parseWalletAddress ::
  "'w IPaymentProvider \<Rightarrow> string \<Rightarrow> 'w \<times> call list
     \<Rightarrow> (error + PublicKey) \<times> ('w \<times> call list)" where
  "call_parseWalletAddress pp a s =
     logged (ParseWalletAddress a) (\<lambda>w. (parseWalletAddress pp a, w)) s"

definition call_notify ::
  "'w INotificationProvider \<Rightarrow> NotificationData \<Rightarrow> 'w \<times> call list
     \<Rightarrow> (error + unit) \<times> ('w \<times> call list)" where
  "call_notify p d s = logged (Notify (getName p) d) (notify p d) s"

section \<open>core/SecurityValidator.ts\<close>

text \<open>
  The five failure texts of \<open>validateClaim\<close>. An exception caught in checks 1, 3 and 4 is
  reported by its message after a fixed prefix.
\<close>

definition not_merged_text :: string where
  "not_merged_text =
     ''**Cannot claim bounty**'' @ NL @ NL @
     ''This pull request must be merged before claiming the bounty.''"

definition not_author_text :: "string \<Rightarrow> string \<Rightarrow> string" where
  "not_author_text commenter author =
     ''**Unauthorized claim**'' @ NL @ NL @ ''@'' @ commenter @
     '' is not the author of this pull request.'' @ NL @ NL @
     ''Only the PR author (@'' @ author @ '') can claim the bounty.''"

definition no_bounty_text :: string where
  "no_bounty_text =
     ''**No bounty found**'' @ NL @ NL @
     ''This pull request is not linked to any issue with an active bounty.'' @ NL @ NL @
     ''Make sure your PR description includes '' @ DQ @ ''Fixes #<issue_number>'' @ DQ @
     '' and that the issue has a bounty label.''"

definition not_assigned_text :: "string \<Rightarrow> int \<Rightarrow> string" where
  "not_assigned_text commenter n =
     ''**Unauthorized claim**'' @ NL @ NL @ ''@'' @ commenter @
     '' was not assigned to issue #'' @ number_text n @ ''.'' @ NL @ NL @
     ''Please use `/assign` on the issue before starting work to be eligible for the bounty.''"

definition already_claimed_text :: "int \<Rightarrow> string" where
  "already_claimed_text n =
     ''**Bounty already claimed**'' @ NL @ NL @ ''The bounty for issue #'' @ number_text n @
     '' has already been claimed by another contributor.''"

definition rejected :: "string \<Rightarrow> ClaimValidation" where
  "rejected reason = \<lparr>isValid = False, linkedIssue = None, errors = [reason]\<rparr>"

text \<open>
  \<open>validateClaim\<close>. Each \<open>try\<close> block is the \<open>case\<close> on the answer of its provider call:
  \<open>Inl\<close> is the \<open>catch\<close> branch. Console output is left out.
\<close>

definition validateClaim ::
  "'w IIssueProvider \<Rightarrow> SecurityConfig \<Rightarrow> string \<Rightarrow> int \<Rightarrow> string \<Rightarrow> BountyConfig
     \<Rightarrow> 'w \<times> call list \<Rightarrow> ClaimValidation \<times> ('w \<times> call list)" where
  "validateClaim ip config repo prNumber commenter bountyConfig s =
     (case call_getPullRequest ip repo prNumber s of
        (Inl e, s1) \<Rightarrow> (rejected (''Failed to verify pull request: '' @ message e), s1)
      | (Inr prData, s1) \<Rightarrow>
          if requireMergedPR config \<noteq> Some False \<and> \<not> merged prData
          then (rejected not_merged_text, s1)
          else if user_login prData \<noteq> commenter
          then (rejected (not_author_text commenter (user_login prData)), s1)
          else
            (case call_findLinkedIssueWithBounty ip repo prNumber prData bountyConfig s1 of
               (Inl e, s2) \<Rightarrow> (rejected (''Failed to verify linked issue: '' @ message e), s2)
             | (Inr None, s2) \<Rightarrow> (rejected no_bounty_text, s2)
             | (Inr (Some li), s2) \<Rightarrow>
                 (case (if skipAssignmentCheck config \<noteq> Some True
                        then (case call_wasUserEverAssigned ip repo (li_number li) commenter s2 of
                                (Inl e, s3) \<Rightarrow>
                                  (Some (''Failed to verify assignment: '' @ message e), s3)
                              | (Inr wasAssigned, s3) \<Rightarrow>
                                  if \<not> wasAssigned
                                  then (Some (not_assigned_text commenter (li_number li)), s3)
                                  else (None, s3))
                        else (None, s2)) of
                    (Some reason, s3) \<Rightarrow> (rejected reason, s3)
                  | (None, s3) \<Rightarrow>
                      (case call_isBountyAlreadyClaimed ip repo (li_number li) s3 of
                         (Inr True, s4) \<Rightarrow> (rejected (already_claimed_text (li_number li)), s4)
                       | (r, s4) \<Rightarrow>
                           (\<lparr>isValid = True, linkedIssue = Some li, errors = []\<rparr>, s4)))))"

section \<open>providers/issue/GithubProvider.ts: isBountyAlreadyClaimed\<close>

text \<open>
  The pattern \<open>/\*\*Bounty (released|claimed)\*\*/i\<close>: \<open>claimPattern_matches_at s\<close> holds
  when a match starts at the first character of \<open>s\<close>, and \<open>claimPattern_test\<close> looks for a
  match at every position.
\<close>

definition claimPattern_matches_at :: "string \<Rightarrow> bool" where
  "claimPattern_matches_at s =
     (startsWith_ignoring_case ''**Bounty released**'' s \<or>
      startsWith_ignoring_case ''**Bounty claimed**'' s)"

fun claimPattern_test :: "string \<Rightarrow> bool" where
  "claimPattern_test [] = claimPattern_matches_at []"
| "claimPattern_test (c # cs) = (claimPattern_matches_at (c # cs) \<or> claimPattern_test cs)"

text \<open>
  A comment of the listing: the type of its author (\<open>None\<close> when the listing gives no
  author) and its body.
\<close>

record IssueComment =
  ic_user_type :: "string option"
  ic_body :: string

text \<open>
  A failed request: the message of the response body, when there is one, and the message
  of the exception. \<open>axios_error_text\<close> is
  \<open>error.response?.data?.message || error.message\<close>.
\<close>

datatype axios_error = AxiosError "string option" string

fun axios_error_text :: "axios_error \<Rightarrow> string" where
  "axios_error_text (AxiosError None m) = m"
| "axios_error_text (AxiosError (Some t) m) = (if t = [] then m else t)"

text \<open>
  \<open>response.data.some(comment => comment.user.type === "Bot" && claimPattern.test(comment.body))\<close>:
  the comments are visited in order, reading the type of an absent author raises, and the
  first comment that satisfies the test ends the visit.
\<close>

fun some_claim_comment :: "IssueComment list \<Rightarrow> error + bool" where
  "some_claim_comment [] = Inr False"
| "some_claim_comment (c # cs) =
     (case ic_user_type c of
        None \<Rightarrow> Inl (TypeError ''Cannot read properties of null'')
      | Some ty \<Rightarrow>
          if ty = ''Bot'' \<and> claimPattern_test (ic_body c) then Inr True
          else some_claim_comment cs)"

text \<open>
  The test that \<open>some\<close> applies, on a comment that has an author: the author is of type
  \<open>Bot\<close> and the body matches the pattern.
\<close>

definition is_claim_marker :: "IssueComment \<Rightarrow> bool" where
  "is_claim_marker c = (ic_user_type c = Some ''Bot'' \<and> claimPattern_test (ic_body c))"

text \<open>
  The request \<open>axios.get\<close> of the comments of an issue is a parameter: from the address it
  yields the listing or the failure.
\<close>

definition GitHubProvider_isBountyAlreadyClaimed ::
  "(string \<Rightarrow> 'w \<Rightarrow> (axios_error + IssueComment list) \<times> 'w) \<Rightarrow> string \<Rightarrow> int \<Rightarrow> 'w
     \<Rightarrow> (error + bool) \<times> 'w" where
  "GitHubProvider_isBountyAlreadyClaimed axios_get repository issueNumber w =
     (case axios_get (''https://api.github.com/repos/'' @ repository @ ''/issues/'' @
                      number_text issueNumber @ ''/comments'') w of
        (Inl ae, w') \<Rightarrow>
          (Inl (Error (''Failed to check claim status: '' @ axios_error_text ae)), w')
      | (Inr comments, w') \<Rightarrow>
          (case some_claim_comment comments of
             Inl e \<Rightarrow> (Inl (Error (''Failed to check claim status: '' @ message e)), w')
           | Inr found \<Rightarrow> (Inr found, w')))"

section \<open>core/BountyManager.ts\<close>

record 'w BountyManager =
  issueProvider :: "'w IIssueProvider"
  paymentProvider :: "'w IPaymentProvider"
  notificationProviders :: "'w INotificationProvider list"
  bountyConfig :: BountyConfig
  securityConfig :: SecurityConfig

record 'w BountyManagerConfig =
  config_issueProvider :: "'w IIssueProvider"
  config_paymentProvider :: "'w IPaymentProvider"
  config_notificationProviders :: "'w INotificationProvider list option"
  config_bountyConfig :: "BountyConfig option"
  config_securityConfig :: "SecurityConfig option"

definition getDefaultBountyConfig :: BountyConfig where
  "getDefaultBountyConfig =
     [''bounty-1-sol'' \<mapsto> 1000000000,
      ''bounty-2-sol'' \<mapsto> 2000000000,
      ''bounty-3-sol'' \<mapsto> 3000000000,
      ''bounty-4-sol'' \<mapsto> 4000000000,
      ''bounty-5-sol'' \<mapsto> 5000000000]"

text \<open>The constructor: what the configuration leaves out takes its default.\<close>

definition new_BountyManager :: "'w BountyManagerConfig \<Rightarrow> 'w BountyManager" where
  "new_BountyManager config =
     \<lparr>issueProvider = config_issueProvider config,
      paymentProvider = config_paymentProvider config,
      notificationProviders =
        (case config_notificationProviders config of None \<Rightarrow> [] | Some ps \<Rightarrow> ps),
      bountyConfig =
        (case config_bountyConfig config of None \<Rightarrow> getDefaultBountyConfig | Some bc \<Rightarrow> bc),
      securityConfig =
        (case config_securityConfig config of
           None \<Rightarrow> \<lparr>skipAssignmentCheck = None, requireMergedPR = None,
                     requireMaintainerForBountyCreation = None\<rparr>
         | Some sc \<Rightarrow> sc)\<rparr>"

text \<open>
  Two renderings that the comments contain are parameters: the base-58 text of a wallet
  address, and the text of \<open>lamportsToSol(amount)\<close>, a floating-point quotient (and not a
  number when the amount is none).
\<close>

record Rendering =
  toBase58 :: "PublicKey \<Rightarrow> string"
  lamportsToSol_text :: "property \<Rightarrow> string"

text \<open>
  The names of the properties that a plain object inherits from \<open>Object.prototype\<close>; the
  value of each is a function or an object, so it counts as true in a test.
\<close>

definition Object_prototype :: "string list" where
  "Object_prototype =
     [''constructor'', ''__defineGetter__'', ''__defineSetter__'', ''hasOwnProperty'',
      ''__lookupGetter__'', ''__lookupSetter__'', ''isPrototypeOf'', ''propertyIsEnumerable'',
      ''toString'', ''valueOf'', ''__proto__'', ''toLocaleString'']"

text \<open>
  \<open>getBountyAmount\<close>: \<open>this.bountyConfig[label] || null\<close>. An entry of the table with the
  amount 0 counts as absent; a label that the table does not hold and that names an
  inherited property yields that property.
\<close>

definition getBountyAmount :: "BountyConfig \<Rightarrow> string \<Rightarrow> property option" where
  "getBountyAmount bc label =
     (case bc label of
        Some a \<Rightarrow> if a = 0 then None else Some (Lamports a)
      | None \<Rightarrow> if label \<in> set Object_prototype then Some (Inherited label) else None)"

text \<open>\<open>notifyAll\<close>: every provider is tried in turn and a failure of one is only logged.\<close>

fun notifyAll ::
  "'w INotificationProvider list \<Rightarrow> NotificationData \<Rightarrow> 'w \<times> call list \<Rightarrow> 'w \<times> call list" where
  "notifyAll [] d s = s"
| "notifyAll (p # ps) d s = notifyAll ps d (snd (call_notify p d s))"

text \<open>
  The loop \<open>for (const error of validation.errors) await postComment(repo, prNumber, error)\<close>;
  it is not inside a \<open>try\<close>, so a comment that fails ends it.
\<close>

fun postEach ::
  "'w IIssueProvider \<Rightarrow> string \<Rightarrow> int \<Rightarrow> string list \<Rightarrow> 'w \<times> call list
     \<Rightarrow> (error + unit) \<times> ('w \<times> call list)" where
  "postEach ip repo n [] s = (Inr (), s)"
| "postEach ip repo n (e # es) s =
     (case call_postComment ip repo n e s of
        (Inl x, s1) \<Rightarrow> (Inl x, s1)
      | (Inr u, s1) \<Rightarrow> postEach ip repo n es s1)"

definition invalid_claim_command_text :: string where
  "invalid_claim_command_text =
     ''**Invalid claim command**'' @ NL @ NL @ ''Usage: `/claim <wallet_address>`''"

definition invalid_wallet_text :: string where
  "invalid_wallet_text =
     ''**Invalid wallet address**'' @ NL @ NL @ ''Please provide a valid wallet address.''"

definition released_text :: "Rendering \<Rightarrow> string \<Rightarrow> LinkedIssue \<Rightarrow> PublicKey \<Rightarrow> string \<Rightarrow> string" where
  "released_text rd commenter li wallet url =
     ''**Bounty released to @'' @ commenter @ ''**'' @ NL @ NL @
     ''Issue: #'' @ number_text (li_number li) @ NL @
     ''Amount: '' @ lamportsToSol_text rd (bountyAmount li) @ '' SOL'' @ NL @
     ''Recipient wallet: `'' @ toBase58 rd wallet @ ''`'' @ NL @
     ''Transaction: '' @ url"

definition claimed_text :: "string \<Rightarrow> int \<Rightarrow> string \<Rightarrow> string" where
  "claimed_text commenter prNumber url =
     ''**Bounty claimed**'' @ NL @ NL @
     ''This bounty has been claimed by @'' @ commenter @ '' via PR #'' @
     number_text prNumber @ ''.'' @ NL @
     ''Transaction: '' @ url"

text \<open>
  The \<open>try\<close> block of \<open>handleClaim\<close> (lines 290 to 328): the first exception ends it. Reading
  \<open>linkedIssue.number\<close> of an absent linked issue raises.
\<close>

definition handleClaim_release ::
  "'w BountyManager \<Rightarrow> Rendering \<Rightarrow> string \<Rightarrow> int \<Rightarrow> string \<Rightarrow> PublicKey \<Rightarrow> LinkedIssue option
     \<Rightarrow> 'w \<times> call list \<Rightarrow> (error + unit) \<times> ('w \<times> call list)" where
  "handleClaim_release m rd repo prNumber commenter wallet linked s =
     (case call_getRepositoryHash (paymentProvider m) repo s of
        (repoHash, s1) \<Rightarrow>
          (case linked of
             None \<Rightarrow> (Inl (TypeError ''Cannot read properties of undefined''), s1)
           | Some li \<Rightarrow>
               (case call_releaseEscrow (paymentProvider m) (li_number li) repoHash wallet s1 of
                  (Inl e, s2) \<Rightarrow> (Inl e, s2)
                | (Inr tx, s2) \<Rightarrow>
                    (case call_postComment (issueProvider m) repo prNumber
                            (released_text rd commenter li wallet (explorerUrl tx)) s2 of
                       (Inl e, s3) \<Rightarrow> (Inl e, s3)
                     | (Inr u, s3) \<Rightarrow>
                         (case call_postComment (issueProvider m) repo (li_number li)
                                 (claimed_text commenter prNumber (explorerUrl tx)) s3 of
                            (Inl e, s4) \<Rightarrow> (Inl e, s4)
                          | (Inr u', s4) \<Rightarrow>
                              (Inr (),
                               notifyAll (notificationProviders m)
                                 \<lparr>nd_repository = repo,
                                  nd_issueNumber = li_number li,
                                  nd_prNumber = Some prNumber,
                                  contributor = commenter,
                                  nd_amount = bountyAmount li,
                                  transactionUrl = explorerUrl tx,
                                  eventType = Bounty_claimed\<rparr> s4))))))"

text \<open>
  Lines 245 to 248 of \<open>handleClaim\<close>: \<open>parts[1]\<close> of \<open>commentBody.split(/\s+/)\<close>. It is
  absent when the comment has a single piece; an absent or empty piece is the missing
  argument.
\<close>

definition claim_argument :: "string \<Rightarrow> string option" where
  "claim_argument commentBody =
     (let parts = split_whitespace commentBody in
      if length parts \<le> 1 \<or> parts ! 1 = [] then None else Some (parts ! 1))"

definition handleClaim ::
  "'w BountyManager \<Rightarrow> Rendering \<Rightarrow> string \<Rightarrow> int \<Rightarrow> string \<Rightarrow> string
     \<Rightarrow> 'w \<times> call list \<Rightarrow> (error + unit) \<times> ('w \<times> call list)" where
  "handleClaim m rd repo prNumber commenter commentBody s =
     (case claim_argument commentBody of
        None \<Rightarrow> call_postComment (issueProvider m) repo prNumber invalid_claim_command_text s
      | Some walletStr \<Rightarrow>
          (case call_parseWalletAddress (paymentProvider m) walletStr s of
             (Inl e, s1) \<Rightarrow>
               call_postComment (issueProvider m) repo prNumber invalid_wallet_text s1
           | (Inr wallet, s1) \<Rightarrow>
               (case validateClaim (issueProvider m) (securityConfig m) repo prNumber commenter
                       (bountyConfig m) s1 of
                  (validation, s2) \<Rightarrow>
                    if \<not> isValid validation
                    then postEach (issueProvider m) repo prNumber (errors validation) s2
                    else
                      (case handleClaim_release m rd repo prNumber commenter wallet
                              (linkedIssue validation) s2 of
                         (Inl e, s3) \<Rightarrow>
                           call_postComment (issueProvider m) repo prNumber
                             (''Failed to release bounty: '' @ message e) s3
                       | (Inr u, s3) \<Rightarrow> (Inr (), s3)))))"

definition created_text :: "Rendering \<Rightarrow> property \<Rightarrow> string \<Rightarrow> int \<Rightarrow> string" where
  "created_text rd amount url issueNumber =
     ''**Bounty escrow created**'' @ NL @ NL @
     ''Amount: '' @ lamportsToSol_text rd amount @ '' SOL'' @ NL @
     ''Transaction: '' @ url @ NL @ NL @
     ''To claim this bounty:'' @ NL @
     ''1. Get assigned to this issue with `/assign`'' @ NL @
     ''2. Create a PR that fixes this issue (include '' @ DQ @ ''Fixes #'' @
     number_text issueNumber @ DQ @ '' in the PR description)'' @ NL @
     ''3. Get your PR merged'' @ NL @
     ''4. Comment `/claim <your_wallet_address>` on your merged PR''"

text \<open>The \<open>try\<close> block of \<open>handleLabeled\<close> (lines 108 to 137).\<close>

definition handleLabeled_create ::
  "'w BountyManager \<Rightarrow> Rendering \<Rightarrow> string \<Rightarrow> int \<Rightarrow> string \<Rightarrow> property
     \<Rightarrow> 'w \<times> call list \<Rightarrow> (error + unit) \<times> ('w \<times> call list)" where
  "handleLabeled_create m rd repo issueNumber sender amount s =
     (case call_getRepositoryHash (paymentProvider m) repo s of
        (repoHash, s1) \<Rightarrow>
          (case call_createEscrow (paymentProvider m) issueNumber repoHash amount s1 of
             (Inl e, s2) \<Rightarrow> (Inl e, s2)
           | (Inr tx, s2) \<Rightarrow>
               (case call_postComment (issueProvider m) repo issueNumber
                       (created_text rd amount (explorerUrl tx) issueNumber) s2 of
                  (Inl e, s3) \<Rightarrow> (Inl e, s3)
                | (Inr u, s3) \<Rightarrow>
                    (Inr (),
                     notifyAll (notificationProviders m)
                       \<lparr>nd_repository = repo,
                        nd_issueNumber = issueNumber,
                        nd_prNumber = None,
                        contributor = sender,
                        nd_amount = amount,
                        transactionUrl = explorerUrl tx,
                        eventType = Bounty_created\<rparr> s3))))"

text \<open>
  \<open>handleLabeled\<close>. A field of the payload is missing when it is absent, zero or the
  empty string.
\<close>

definition handleLabeled ::
  "'w BountyManager \<Rightarrow> Rendering \<Rightarrow> WebhookPayload
     \<Rightarrow> 'w \<times> call list \<Rightarrow> (error + unit) \<times> ('w \<times> call list)" where
  "handleLabeled m rd payload s =
     (case (issue_number payload, repository_full_name payload, label_name payload,
            sender_login payload) of
        (Some issueNumber, Some repo, Some label, Some sender) \<Rightarrow>
          if issueNumber = 0 \<or> repo = [] \<or> label = [] \<or> sender = []
          then (Inl (Error ''Missing required fields in labeled event''), s)
          else
            (case (if requireMaintainerForBountyCreation (securityConfig m) \<noteq> Some False
                   then (case call_checkIsMaintainer (issueProvider m) repo sender s of
                           (Inl e, s1) \<Rightarrow> (Some (Inl e), s1)
                         | (Inr isMaintainer, s1) \<Rightarrow>
                             if \<not> isMaintainer
                             then (case call_postComment (issueProvider m) repo issueNumber
                                          ''Only repository maintainers can create bounties.''
                                          s1 of
                                     (r, s2) \<Rightarrow> (Some r, s2))
                             else (None, s1))
                   else (None, s)) of
               (Some r, s1) \<Rightarrow> (r, s1)
             | (None, s1) \<Rightarrow>
                 (case getBountyAmount (bountyConfig m) label of
                    None \<Rightarrow> (Inr (), s1)
                  | Some amount \<Rightarrow>
                      (case handleLabeled_create m rd repo issueNumber sender amount s1 of
                         (Inl e, s2) \<Rightarrow>
                           call_postComment (issueProvider m) repo issueNumber
                             (''Failed to create bounty escrow: '' @ message e) s2
                       | (Inr u, s2) \<Rightarrow> (Inr (), s2))))
      | _ \<Rightarrow> (Inl (Error ''Missing required fields in labeled event''), s))"

section \<open>A concrete scenario\<close>

text \<open>
  The scenario of section 8 of the specification: repository \<open>org/repo\<close>, issue 42 carrying
  the label \<open>bounty-2-sol\<close>, pull request 50. The world is trivial, and each provider
  answers from a fixed table.
\<close>

definition scenario_pda :: pda_function where
  "scenario_pda seeds pid = Inr (7, 255)"


definition scenario_connection :: "AccountInfo option \<Rightarrow> unit Connection" where
  "scenario_connection account =
     \<lparr>getAccountInfo = (\<lambda>k w. (Inr account, w)),
      sendTransaction = (\<lambda>is ks w. (Inr ''5sig'', w)),
      confirmTransaction = (\<lambda>g w. (Inr (), w))\<rparr>"

definition scenario_solana :: "AccountInfo option \<Rightarrow> unit SolanaProvider" where
  "scenario_solana account =
     \<lparr>connection = scenario_connection account, payer = 1, programId = 2,
      network = ''devnet''\<rparr>"

definition scenario_account :: AccountInfo where
  "scenario_account = \<lparr>lamports = 2000000000, owner = 2, account_data = []\<rparr>"


definition scenario_pr :: PullRequest where
  "scenario_pr =
     \<lparr>pr_number = 50, pr_title = Some ''Fix the parser'', pr_body = Some ''Fixes #42'',
      pr_state = Closed, merged = True, user_login = ''alice''\<rparr>"

definition scenario_linked :: LinkedIssue where
  "scenario_linked = \<lparr>li_number = 42, bountyAmount = Lamports 2000000000, li_label = ''bounty-2-sol''\<rparr>"

definition scenario_tx :: TransactionResult where
  "scenario_tx =
     \<lparr>signature = ''5sig'', explorerUrl = ''https://explorer.solana.com/tx/5sig?cluster=devnet''\<rparr>"

text \<open>
  An issue provider that gives the listed answers to \<open>getPullRequest\<close>,
  \<open>findLinkedIssueWithBounty\<close>, \<open>wasUserEverAssigned\<close>, \<open>isBountyAlreadyClaimed\<close> and
  \<open>checkIsMaintainer\<close>, and accepts every comment and assignment.
\<close>

definition scenario_issues ::
  "error + PullRequest \<Rightarrow> error + LinkedIssue option \<Rightarrow> error + bool \<Rightarrow> error + bool
     \<Rightarrow> error + bool \<Rightarrow> unit IIssueProvider" where
  "scenario_issues pr linked assigned claimed maintainer =
     \<lparr>postComment = (\<lambda>repo n c w. (Inr (), w)),
      assignIssue = (\<lambda>repo n u w. (Inr (), w)),
      getPullRequest = (\<lambda>repo n w. (pr, w)),
      findLinkedIssueWithBounty = (\<lambda>repo n d bc w. (linked, w)),
      wasUserEverAssigned = (\<lambda>repo n u w. (assigned, w)),
      isBountyAlreadyClaimed = (\<lambda>repo n w. (claimed, w)),
      checkIsMaintainer = (\<lambda>repo u w. (maintainer, w))\<rparr>"

definition scenario_payments :: "unit IPaymentProvider" where
  "scenario_payments =
     \<lparr>createEscrow = (\<lambda>n h a w. (Inr scenario_tx, w)),
      releaseEscrow = (\<lambda>n h k w. (Inr scenario_tx, w)),
      escrowExists = (\<lambda>n h w. (Inr True, w)),
      getRepositoryHash = (\<lambda>repo. replicate 32 7),
      parseWalletAddress =
        (\<lambda>a. if a = ''7xKXtg2C'' then Inr 9 else Inl (Error ''Invalid Solana wallet address''))\<rparr>"

definition scenario_flags :: "bool option \<Rightarrow> bool option \<Rightarrow> bool option \<Rightarrow> SecurityConfig" where
  "scenario_flags skip mergedRequired maintainerRequired =
     \<lparr>skipAssignmentCheck = skip, requireMergedPR = mergedRequired,
      requireMaintainerForBountyCreation = maintainerRequired\<rparr>"

definition scenario_manager :: "unit IIssueProvider \<Rightarrow> SecurityConfig \<Rightarrow> unit BountyManager" where
  "scenario_manager ip flags =
     \<lparr>issueProvider = ip, paymentProvider = scenario_payments, notificationProviders = [],
      bountyConfig = getDefaultBountyConfig, securityConfig = flags\<rparr>"

definition scenario_rendering :: Rendering where
  "scenario_rendering =
     \<lparr>toBase58 = (\<lambda>k. ''7xKXtg2C''), lamportsToSol_text = (\<lambda>a. ''2'')\<rparr>"

definition scenario_labeled :: WebhookPayload where
  "scenario_labeled =
     \<lparr>action = Some ''labeled'', issue_number = Some 42, issue_pull_request = False,
      label_name = Some ''bounty-2-sol'', comment_body = None, comment_user_login = None,
      sender_login = Some ''carol'', repository_full_name = Some ''org/repo''\<rparr>"

text \<open>
  Comments of issue 42 after a first successful claim: the marker comment, written by an
  author of the given type, and a comment whose author the listing does not give. The
  issue provider \<open>scenario_github\<close> has for \<open>isBountyAlreadyClaimed\<close> the detector of the
  GitHub provider, on a request that answers with the given comments.
\<close>

definition scenario_marker :: "string \<Rightarrow> IssueComment" where
  "scenario_marker author_type =
     \<lparr>ic_user_type = Some author_type,
      ic_body = claimed_text ''alice'' 50 (explorerUrl scenario_tx)\<rparr>"

definition scenario_ghost :: IssueComment where
  "scenario_ghost = \<lparr>ic_user_type = None, ic_body = ''Thanks for the fix''\<rparr>"

definition scenario_listing ::
  "IssueComment list \<Rightarrow> string \<Rightarrow> unit \<Rightarrow> (axios_error + IssueComment list) \<times> unit" where
  "scenario_listing comments address w = (Inr comments, w)"

definition scenario_github :: "IssueComment list \<Rightarrow> unit IIssueProvider" where
  "scenario_github comments =
     (scenario_issues (Inr scenario_pr) (Inr (Some scenario_linked)) (Inr True) (Inr False)
        (Inr True))
     \<lparr>isBountyAlreadyClaimed :=
        GitHubProvider_isBountyAlreadyClaimed (scenario_listing comments)\<rparr>"

text \<open>
  Two managers with no flag set: one whose pull request 50 is merged, by its author
  \<open>alice\<close>, linked to issue 42, assigned and not yet claimed; and one whose pull request is
  not merged.
\<close>

definition scenario_merged_manager :: "unit BountyManager" where
  "scenario_merged_manager =
     scenario_manager
       (scenario_issues (Inr scenario_pr) (Inr (Some scenario_linked)) (Inr True) (Inr False)
          (Inr True))
       (scenario_flags None None None)"

definition scenario_unmerged_manager :: "unit BountyManager" where
  "scenario_unmerged_manager =
     scenario_manager
       (scenario_issues (Inr (scenario_pr\<lparr>merged := False\<rparr>)) (Inr (Some scenario_linked))
          (Inr True) (Inr False) (Inr True))
       (scenario_flags None None None)"

text \<open>
  A manager with no flag set whose sender of the label event is not a maintainer, and an
  issue provider whose commenter was never assigned.
\<close>

definition scenario_outsider_manager :: "unit BountyManager" where
  "scenario_outsider_manager =
     scenario_manager
       (scenario_issues (Inr scenario_pr) (Inr (Some scenario_linked)) (Inr True) (Inr False)
          (Inr False))
       (scenario_flags None None None)"

definition scenario_unassigned_issues :: "unit IIssueProvider" where
  "scenario_unassigned_issues =
     scenario_issues (Inr scenario_pr) (Inr (Some scenario_linked)) (Inr False) (Inr False)
       (Inr True)"

definition scenario_unmerged_issues :: "unit IIssueProvider" where
  "scenario_unmerged_issues =
     scenario_issues (Inr (scenario_pr\<lparr>merged := False\<rparr>)) (Inr (Some scenario_linked))
       (Inr True) (Inr False) (Inr True)"

section \<open>Auxiliary facts\<close>

subsection \<open>Octets and digits\<close>




lemma length_hex_digits: "length (hex_digits k v) = k"
  by (induction k arbitrary: v) auto

lemma length_digest_hex: "length (digest_hex w) = 64"
  by (simp add: digest_hex_def length_hex_digits)






lemma length_Buffer_from: "length (Buffer_from s) = length s"
  by (simp add: Buffer_from_def)

subsection \<open>The encoder\<close>

lemma serialize_create:
  assumes "length rh = 32" "0 \<le> n" "n < 2 ^ 64" "0 \<le> a" "a < 2 ^ 64"
  shows "serialize CreateEscrowSchema (CreateEscrowInstruction rh n a)
           = Inr (rh @ u64_le n @ u64_le a)"
  using assms by (simp add: CreateEscrowSchema_def CreateEscrowInstruction_def)

lemma serialize_release:
  assumes "length rh = 32" "0 \<le> n" "n < 2 ^ 64"
  shows "serialize ReleaseEscrowSchema (ReleaseEscrowInstruction rh n) = Inr (rh @ u64_le n)"
  using assms by (simp add: ReleaseEscrowSchema_def ReleaseEscrowInstruction_def)

subsection \<open>The log\<close>

lemma logged_eq:
  "logged c op (w, t) = (r, s') \<longleftrightarrow> (\<exists>w'. op w = (r, w') \<and> s' = (w', t @ [c]))"
  by (auto simp: logged_def split: prod.splits)

lemma new_calls_append [simp]: "new_calls (w, t) (w', t @ cs) = cs"
  by (simp add: new_calls_def)

lemma new_calls_same [simp]: "new_calls (w, t) (w', t) = []"
  by (simp add: new_calls_def)

subsection \<open>The escrow address\<close>







subsection \<open>The validation pipeline and the handlers\<close>

lemmas call_defs = call_postComment_def call_getPullRequest_def call_findLinkedIssueWithBounty_def
  call_wasUserEverAssigned_def call_isBountyAlreadyClaimed_def call_checkIsMaintainer_def
  call_createEscrow_def call_releaseEscrow_def call_getRepositoryHash_def
  call_parseWalletAddress_def call_notify_def

lemma validateClaim_order:
  assumes "validateClaim ip config repo prNumber commenter bc s = (v, s')"
  shows "\<exists>n. prefix (new_calls s s') (validation_calls config repo prNumber commenter n)"
proof -
  obtain w t where s: "s = (w, t)" by (cases s)
  show ?thesis
    using assms unfolding s validateClaim_def call_defs validation_calls_def
    by (auto simp: logged_eq split: prod.splits sum.splits option.splits if_splits bool.splits)
qed

lemma validateClaim_valid_iff:
  assumes "validateClaim ip config repo prNumber commenter bc s = (v, s')"
  shows "isValid v =
     (\<exists>prData s1 li s2 s3 r5.
        call_getPullRequest ip repo prNumber s = (Inr prData, s1)
      \<and> (requireMergedPR config = Some False \<or> merged prData)
      \<and> user_login prData = commenter
      \<and> call_findLinkedIssueWithBounty ip repo prNumber prData bc s1
           = (Inr (Some li), s2)
      \<and> (if skipAssignmentCheck config = Some True then s3 = s2
          else call_wasUserEverAssigned ip repo (li_number li) commenter s2 = (Inr True, s3))
      \<and> call_isBountyAlreadyClaimed ip repo (li_number li) s3 = (r5, s')
      \<and> r5 \<noteq> Inr True
      \<and> linkedIssue v = Some li \<and> errors v = [])"
  using assms unfolding validateClaim_def rejected_def
  by (auto split: prod.splits sum.splits option.splits if_splits bool.splits)

lemma validateClaim_first_failure:
  assumes "validateClaim ip config repo prNumber commenter bc s = (v, s')"
    and "\<not> isValid v"
  shows "linkedIssue v = None \<and>
     ((\<exists>e. call_getPullRequest ip repo prNumber s = (Inl e, s')
          \<and> errors v = [''Failed to verify pull request: '' @ message e])
    \<or> (\<exists>prData. call_getPullRequest ip repo prNumber s = (Inr prData, s')
          \<and> requireMergedPR config \<noteq> Some False \<and> \<not> merged prData
          \<and> errors v = [not_merged_text])
    \<or> (\<exists>prData. call_getPullRequest ip repo prNumber s = (Inr prData, s')
          \<and> (requireMergedPR config = Some False \<or> merged prData)
          \<and> user_login prData \<noteq> commenter
          \<and> errors v = [not_author_text commenter (user_login prData)])
    \<or> (\<exists>prData s1 e. call_getPullRequest ip repo prNumber s = (Inr prData, s1)
          \<and> (requireMergedPR config = Some False \<or> merged prData)
          \<and> user_login prData = commenter
          \<and> call_findLinkedIssueWithBounty ip repo prNumber prData bc s1 = (Inl e, s')
          \<and> errors v = [''Failed to verify linked issue: '' @ message e])
    \<or> (\<exists>prData s1. call_getPullRequest ip repo prNumber s = (Inr prData, s1)
          \<and> (requireMergedPR config = Some False \<or> merged prData)
          \<and> user_login prData = commenter
          \<and> call_findLinkedIssueWithBounty ip repo prNumber prData bc s1 = (Inr None, s')
          \<and> errors v = [no_bounty_text])
    \<or> (\<exists>prData s1 li s2 e. call_getPullRequest ip repo prNumber s = (Inr prData, s1)
          \<and> (requireMergedPR config = Some False \<or> merged prData)
          \<and> user_login prData = commenter
          \<and> call_findLinkedIssueWithBounty ip repo prNumber prData bc s1 = (Inr (Some li), s2)
          \<and> skipAssignmentCheck config \<noteq> Some True
          \<and> call_wasUserEverAssigned ip repo (li_number li) commenter s2 = (Inl e, s')
          \<and> errors v = [''Failed to verify assignment: '' @ message e])
    \<or> (\<exists>prData s1 li s2. call_getPullRequest ip repo prNumber s = (Inr prData, s1)
          \<and> (requireMergedPR config = Some False \<or> merged prData)
          \<and> user_login prData = commenter
          \<and> call_findLinkedIssueWithBounty ip repo prNumber prData bc s1 = (Inr (Some li), s2)
          \<and> skipAssignmentCheck config \<noteq> Some True
          \<and> call_wasUserEverAssigned ip repo (li_number li) commenter s2 = (Inr False, s')
          \<and> errors v = [not_assigned_text commenter (li_number li)])
    \<or> (\<exists>prData s1 li s2 s3. call_getPullRequest ip repo prNumber s = (Inr prData, s1)
          \<and> (requireMergedPR config = Some False \<or> merged prData)
          \<and> user_login prData = commenter
          \<and> call_findLinkedIssueWithBounty ip repo prNumber prData bc s1 = (Inr (Some li), s2)
          \<and> (if skipAssignmentCheck config = Some True then s3 = s2
              else call_wasUserEverAssigned ip repo (li_number li) commenter s2 = (Inr True, s3))
          \<and> call_isBountyAlreadyClaimed ip repo (li_number li) s3 = (Inr True, s')
          \<and> errors v = [already_claimed_text (li_number li)]))"
  using assms unfolding validateClaim_def rejected_def
  by (auto split: prod.splits sum.splits option.splits if_splits bool.splits)

lemma new_calls_eq: "snd s' = snd s @ cs \<Longrightarrow> new_calls s s' = cs"
  by (simp add: new_calls_def)

lemma validateClaim_log:
  assumes "validateClaim ip config repo prNumber commenter bc s = (v, s')"
  shows "\<exists>cs. snd s' = snd s @ cs \<and> (\<forall>c \<in> set cs. is_validation_call c)"
  using assms unfolding validateClaim_def call_defs logged_def
  by (auto split: prod.splits sum.splits option.splits if_splits bool.splits)

lemma postEach_log:
  "postEach ip repo n es s = (r, s') \<Longrightarrow>
     \<exists>k. snd s' = snd s @ map (PostComment repo n) (take k es) \<and> (r = Inr () \<longrightarrow> k = length es)"
proof (induction es arbitrary: s)
  case Nil
  then show ?case by auto
next
  case (Cons e es)
  obtain a s1 where c: "call_postComment ip repo n e s = (a, s1)"
    by (cases "call_postComment ip repo n e s")
  then have s1: "snd s1 = snd s @ [PostComment repo n e]"
    by (auto simp: call_defs logged_def split: prod.splits)
  show ?case
  proof (cases a)
    case (Inl x)
    with c Cons.prems have "s' = s1" "r = Inl x" by auto
    with s1 show ?thesis by (intro exI[of _ 1]) simp
  next
    case (Inr u)
    with c Cons.prems have "postEach ip repo n es s1 = (r, s')" by auto
    from Cons.IH[OF this] obtain k where
      "snd s' = snd s1 @ map (PostComment repo n) (take k es)"
      "r = Inr () \<longrightarrow> k = length es" by blast
    with s1 show ?thesis by (intro exI[of _ "Suc k"]) simp
  qed
qed

lemma notifyAll_log:
  "snd (notifyAll ps d s) = snd s @ map (\<lambda>p. Notify (getName p) d) ps"
  by (induction ps arbitrary: s) (auto simp: call_defs logged_def split: prod.splits)

lemma validation_call_kinds:
  "is_validation_call c \<Longrightarrow> \<not> is_payment_call c \<and> \<not> is_release c \<and> \<not> is_escrow_call c"
  by (cases c) simp_all

lemma parse_log:
  "call_parseWalletAddress pp a s = (x, s1) \<Longrightarrow>
     fst s1 = fst s \<and> snd s1 = snd s @ [ParseWalletAddress a] \<and> x = parseWalletAddress pp a"
  by (auto simp: call_defs logged_def)

lemma postComment_log:
  "call_postComment ip repo n c s = (x, s1) \<Longrightarrow> snd s1 = snd s @ [PostComment repo n c]"
  by (auto simp: call_defs logged_def split: prod.splits)

lemma getRepositoryHash_log:
  "call_getRepositoryHash pp repo s = (h, s1) \<Longrightarrow>
     snd s1 = snd s @ [GetRepositoryHash repo] \<and> h = getRepositoryHash pp repo"
  by (auto simp: call_defs logged_def)

lemma releaseEscrow_log:
  "call_releaseEscrow pp n h k s = (x, s1) \<Longrightarrow> snd s1 = snd s @ [ReleaseEscrow n h k]"
  by (auto simp: call_defs logged_def split: prod.splits)

lemma createEscrow_log:
  "call_createEscrow pp n h a s = (x, s1) \<Longrightarrow> snd s1 = snd s @ [CreateEscrow n h a]"
  by (auto simp: call_defs logged_def split: prod.splits)

lemma checkIsMaintainer_log:
  "call_checkIsMaintainer ip repo u s = (x, s1) \<Longrightarrow> snd s1 = snd s @ [CheckIsMaintainer repo u]"
  by (auto simp: call_defs logged_def split: prod.splits)

lemma handleClaim_release_log:
  assumes run: "handleClaim_release m rd repo prNumber commenter wallet linked s = (r, s')"
  shows "\<exists>cs. snd s' = snd s @ cs
           \<and> (\<forall>c \<in> set cs. is_release c \<longrightarrow>
                 (\<exists>li. linked = Some li
                    \<and> c = ReleaseEscrow (li_number li) (getRepositoryHash (paymentProvider m) repo)
                          wallet))"
proof -
  obtain h s1 where c1: "call_getRepositoryHash (paymentProvider m) repo s = (h, s1)"
    by (cases "call_getRepositoryHash (paymentProvider m) repo s")
  from getRepositoryHash_log[OF c1]
  have l1: "snd s1 = snd s @ [GetRepositoryHash repo]"
    and h: "h = getRepositoryHash (paymentProvider m) repo" by simp_all
  show ?thesis
  proof (cases linked)
    case None
    with run c1 have "s' = s1" by (simp add: handleClaim_release_def)
    with l1 show ?thesis by (intro exI[of _ "[GetRepositoryHash repo]"]) simp
  next
    case (Some li)
    obtain x s2 where c2:
      "call_releaseEscrow (paymentProvider m) (li_number li) h wallet s1 = (x, s2)"
      by (cases "call_releaseEscrow (paymentProvider m) (li_number li) h wallet s1")
    from releaseEscrow_log[OF c2] l1
    have l2: "snd s2 = snd s @ [GetRepositoryHash repo, ReleaseEscrow (li_number li) h wallet]"
      by simp
    show ?thesis
    proof (cases x)
      case (Inl e)
      with run c1 c2 Some have "s' = s2" by (simp add: handleClaim_release_def)
      with l2 h Some show ?thesis
        by (intro exI[of _ "[GetRepositoryHash repo, ReleaseEscrow (li_number li) h wallet]"])
          auto
    next
      case (Inr tx)
      let ?c3 = "released_text rd commenter li wallet (explorerUrl tx)"
      obtain y s3 where c3:
        "call_postComment (issueProvider m) repo prNumber ?c3 s2 = (y, s3)"
        by (cases "call_postComment (issueProvider m) repo prNumber ?c3 s2")
      from postComment_log[OF c3] l2
      have l3: "snd s3 = snd s @ [GetRepositoryHash repo, ReleaseEscrow (li_number li) h wallet,
                  PostComment repo prNumber ?c3]" by simp
      show ?thesis
      proof (cases y)
        case (Inl e)
        with run c1 c2 c3 Some Inr have "s' = s3" by (simp add: handleClaim_release_def)
        with l3 h Some show ?thesis
          by (intro exI[of _ "[GetRepositoryHash repo, ReleaseEscrow (li_number li) h wallet,
                  PostComment repo prNumber ?c3]"]) auto
      next
        case yr: (Inr u)
        let ?c4 = "claimed_text commenter prNumber (explorerUrl tx)"
        obtain z s4 where c4:
          "call_postComment (issueProvider m) repo (li_number li) ?c4 s3 = (z, s4)"
          by (cases "call_postComment (issueProvider m) repo (li_number li) ?c4 s3")
        from postComment_log[OF c4] l3
        have l4: "snd s4 = snd s @ [GetRepositoryHash repo,
                    ReleaseEscrow (li_number li) h wallet,
                    PostComment repo prNumber ?c3, PostComment repo (li_number li) ?c4]" by simp
        show ?thesis
        proof (cases z)
          case (Inl e)
          with run c1 c2 c3 c4 Some Inr yr have "s' = s4" by (simp add: handleClaim_release_def)
          with l4 h Some show ?thesis
            by (intro exI[of _ "[GetRepositoryHash repo, ReleaseEscrow (li_number li) h wallet,
                    PostComment repo prNumber ?c3, PostComment repo (li_number li) ?c4]"]) auto
        next
          case zr: (Inr u')
          with run c1 c2 c3 c4 Some Inr yr have "\<exists>d. s' = notifyAll (notificationProviders m) d s4"
            by (auto simp: handleClaim_release_def)
          then obtain d where "s' = notifyAll (notificationProviders m) d s4" ..
          with l4 have "snd s' = snd s @ [GetRepositoryHash repo,
                    ReleaseEscrow (li_number li) h wallet,
                    PostComment repo prNumber ?c3, PostComment repo (li_number li) ?c4]
                  @ map (\<lambda>p. Notify (getName p) d) (notificationProviders m)"
            by (simp add: notifyAll_log)
          with h Some show ?thesis
            by (intro exI[of _ "[GetRepositoryHash repo,
                    ReleaseEscrow (li_number li) h wallet,
                    PostComment repo prNumber ?c3, PostComment repo (li_number li) ?c4]
                  @ map (\<lambda>p. Notify (getName p) d) (notificationProviders m)"]) auto
        qed
      qed
    qed
  qed
qed

lemma handleClaim_cases:
  assumes "handleClaim m rd repo prNumber commenter body s = (r, s')"
  obtains
    (missing) "claim_argument body = None"
      "(r, s') = call_postComment (issueProvider m) repo prNumber invalid_claim_command_text s"
  | (unparseable) walletStr e s1 where "claim_argument body = Some walletStr"
      "call_parseWalletAddress (paymentProvider m) walletStr s = (Inl e, s1)"
      "(r, s') = call_postComment (issueProvider m) repo prNumber invalid_wallet_text s1"
  | (invalid) walletStr wallet s1 v s2 where "claim_argument body = Some walletStr"
      "call_parseWalletAddress (paymentProvider m) walletStr s = (Inr wallet, s1)"
      "validateClaim (issueProvider m) (securityConfig m) repo prNumber commenter
         (bountyConfig m) s1 = (v, s2)"
      "\<not> isValid v"
      "(r, s') = postEach (issueProvider m) repo prNumber (errors v) s2"
  | (released) walletStr wallet s1 v s2 s3 where "claim_argument body = Some walletStr"
      "call_parseWalletAddress (paymentProvider m) walletStr s = (Inr wallet, s1)"
      "validateClaim (issueProvider m) (securityConfig m) repo prNumber commenter
         (bountyConfig m) s1 = (v, s2)"
      "isValid v"
      "handleClaim_release m rd repo prNumber commenter wallet (linkedIssue v) s2 = (Inr (), s3)"
      "(r, s') = (Inr (), s3)"
  | (failed) walletStr wallet s1 v s2 e s3 where "claim_argument body = Some walletStr"
      "call_parseWalletAddress (paymentProvider m) walletStr s = (Inr wallet, s1)"
      "validateClaim (issueProvider m) (securityConfig m) repo prNumber commenter
         (bountyConfig m) s1 = (v, s2)"
      "isValid v"
      "handleClaim_release m rd repo prNumber commenter wallet (linkedIssue v) s2 = (Inl e, s3)"
      "(r, s') = call_postComment (issueProvider m) repo prNumber
                   (''Failed to release bounty: '' @ message e) s3"
proof (cases "claim_argument body")
  case None
  with assms have
    "(r, s') = call_postComment (issueProvider m) repo prNumber invalid_claim_command_text s"
    by (simp add: handleClaim_def)
  with None show ?thesis by (rule missing)
next
  case (Some walletStr)
  obtain x s1 where p: "call_parseWalletAddress (paymentProvider m) walletStr s = (x, s1)"
    by (cases "call_parseWalletAddress (paymentProvider m) walletStr s")
  show ?thesis
  proof (cases x)
    case (Inl e)
    with assms Some p have
      "(r, s') = call_postComment (issueProvider m) repo prNumber invalid_wallet_text s1"
      by (simp add: handleClaim_def)
    with Some p Inl show ?thesis by (intro unparseable[of walletStr e s1]) simp_all
  next
    case (Inr wallet)
    obtain v s2 where vc: "validateClaim (issueProvider m) (securityConfig m) repo prNumber
        commenter (bountyConfig m) s1 = (v, s2)"
      by (cases "validateClaim (issueProvider m) (securityConfig m) repo prNumber
        commenter (bountyConfig m) s1")
    show ?thesis
    proof (cases "isValid v")
      case False
      with assms Some p Inr vc have
        "(r, s') = postEach (issueProvider m) repo prNumber (errors v) s2"
        by (simp add: handleClaim_def)
      with Some p Inr vc False show ?thesis
        by (intro invalid[of walletStr wallet s1 v s2]) simp_all
    next
      case True
      obtain y s3 where rel: "handleClaim_release m rd repo prNumber commenter wallet
          (linkedIssue v) s2 = (y, s3)"
        by (cases "handleClaim_release m rd repo prNumber commenter wallet (linkedIssue v) s2")
      show ?thesis
      proof (cases y)
        case (Inl e)
        with assms Some p Inr vc True rel have
          "(r, s') = call_postComment (issueProvider m) repo prNumber
                   (''Failed to release bounty: '' @ message e) s3"
          by (simp add: handleClaim_def)
        with Some p Inr vc True rel Inl show ?thesis
          by (intro failed[of walletStr wallet s1 v s2 e s3]) simp_all
      next
        case yr: (Inr u)
        with assms Some p Inr vc True rel have "(r, s') = (Inr (), s3)"
          by (simp add: handleClaim_def)
        with Some p Inr vc True rel yr show ?thesis
          by (intro released[of walletStr wallet s1 v s2 s3]) simp_all
      qed
    qed
  qed
qed

lemma release_implies_valid:
  assumes run: "handleClaim m rd repo prNumber commenter body s = (r, s')"
    and rel: "\<exists>c \<in> set (new_calls s s'). is_release c"
  shows "\<exists>walletStr wallet s1 v s2.
           claim_argument body = Some walletStr
         \<and> call_parseWalletAddress (paymentProvider m) walletStr s = (Inr wallet, s1)
         \<and> validateClaim (issueProvider m) (securityConfig m) repo prNumber commenter
              (bountyConfig m) s1 = (v, s2)
         \<and> isValid v"
  using run
proof (cases rule: handleClaim_cases)
  case missing
  from postComment_log[OF missing(2)[symmetric]] have "new_calls s s' = [PostComment repo prNumber invalid_claim_command_text]"
    by (rule new_calls_eq)
  with rel show ?thesis by simp
next
  case (unparseable walletStr e s1)
  from postComment_log[OF unparseable(3)[symmetric]] parse_log[OF unparseable(2)]
  have "new_calls s s' = [ParseWalletAddress walletStr, PostComment repo prNumber invalid_wallet_text]"
    by (intro new_calls_eq) simp
  with rel show ?thesis by simp
next
  case (invalid walletStr wallet s1 v s2)
  from validateClaim_log[OF invalid(3)] obtain cs where
    cs: "snd s2 = snd s1 @ cs" "\<forall>c \<in> set cs. is_validation_call c" by blast
  from postEach_log[OF invalid(5)[symmetric]] obtain k where
    k: "snd s' = snd s2 @ map (PostComment repo prNumber) (take k (errors v))" by blast
  from cs k parse_log[OF invalid(2)]
  have "new_calls s s' = [ParseWalletAddress walletStr] @ cs @ map (PostComment repo prNumber) (take k (errors v))"
    by (intro new_calls_eq) simp
  with rel cs(2) show ?thesis by (auto dest: validation_call_kinds)
next
  case (released walletStr wallet s1 v s2 s3)
  then show ?thesis by blast
next
  case (failed walletStr wallet s1 v s2 e s3)
  then show ?thesis by blast
qed

lemma postEach_single_log:
  "postEach ip repo n [e] s = (r, s') \<Longrightarrow> snd s' = snd s @ [PostComment repo n e]"
  by (auto simp: call_defs logged_def split: prod.splits sum.splits)

lemma invalid_posts_errors:
  assumes run: "handleClaim m rd repo prNumber commenter body s = (r, s')"
    and arg: "claim_argument body = Some walletStr"
    and parse: "call_parseWalletAddress (paymentProvider m) walletStr s = (Inr wallet, s1)"
    and val: "validateClaim (issueProvider m) (securityConfig m) repo prNumber commenter
              (bountyConfig m) s1 = (v, s2)"
    and inv: "\<not> isValid v"
  shows "(r, s') = postEach (issueProvider m) repo prNumber (errors v) s2
       \<and> errors v \<noteq> []
       \<and> new_calls s2 s' = map (PostComment repo prNumber) (errors v)
       \<and> (\<forall>c \<in> set (new_calls s2 s'). \<not> is_payment_call c)
       \<and> (\<forall>c \<in> set (new_calls s s'). \<not> is_escrow_call c)
       \<and> (\<forall>c \<in> set (new_calls s s'). is_payment_call c \<longrightarrow> c = ParseWalletAddress walletStr)"
proof -
  from run arg parse val inv
  have p: "(r, s') = postEach (issueProvider m) repo prNumber (errors v) s2"
    by (simp add: handleClaim_def)
  from validateClaim_first_failure[OF val inv] obtain reason where e: "errors v = [reason]"
    by blast
  from validateClaim_log[OF val] obtain cs where
    cs: "snd s2 = snd s1 @ cs" "\<forall>c \<in> set cs. is_validation_call c" by blast
  from p e have "postEach (issueProvider m) repo prNumber [reason] s2 = (r, s')" by simp
  from postEach_single_log[OF this]
  have k: "snd s' = snd s2 @ [PostComment repo prNumber reason]" .
  from k e have n2: "new_calls s2 s' = map (PostComment repo prNumber) (errors v)"
    by (intro new_calls_eq) simp
  from cs k parse_log[OF parse]
  have n: "new_calls s s' = [ParseWalletAddress walletStr] @ cs @ [PostComment repo prNumber reason]"
    by (intro new_calls_eq) simp
  have a: "\<forall>c \<in> set (new_calls s2 s'). \<not> is_payment_call c"
    unfolding n2 by auto
  have b: "\<forall>c \<in> set (new_calls s s'). is_payment_call c \<longrightarrow> c = ParseWalletAddress walletStr"
    unfolding n using cs(2) by (auto dest: validation_call_kinds)
  have c: "\<forall>c \<in> set (new_calls s s'). \<not> is_escrow_call c"
    unfolding n using cs(2) by (auto dest: validation_call_kinds)
  from e have ne: "errors v \<noteq> []" by simp
  from p ne n2 a c b show ?thesis by blast
qed

lemma missing_argument:
  assumes "claim_argument body = None"
  shows "handleClaim m rd repo prNumber commenter body s
           = call_postComment (issueProvider m) repo prNumber invalid_claim_command_text s
       \<and> new_calls s (snd (handleClaim m rd repo prNumber commenter body s))
           = [PostComment repo prNumber invalid_claim_command_text]"
proof -
  have 1: "handleClaim m rd repo prNumber commenter body s
           = call_postComment (issueProvider m) repo prNumber invalid_claim_command_text s"
    using assms by (simp add: handleClaim_def)
  obtain x s1 where c: "call_postComment (issueProvider m) repo prNumber invalid_claim_command_text s = (x, s1)"
    by (cases "call_postComment (issueProvider m) repo prNumber invalid_claim_command_text s")
  from postComment_log[OF c] have "new_calls s s1 = [PostComment repo prNumber invalid_claim_command_text]"
    by (rule new_calls_eq)
  with 1 c show ?thesis by simp
qed

lemma unparseable_argument:
  assumes "claim_argument body = Some walletStr"
    and "parseWalletAddress (paymentProvider m) walletStr = Inl e"
  shows "handleClaim m rd repo prNumber commenter body s
           = call_postComment (issueProvider m) repo prNumber invalid_wallet_text
               (fst s, snd s @ [ParseWalletAddress walletStr])
       \<and> new_calls s (snd (handleClaim m rd repo prNumber commenter body s))
           = [ParseWalletAddress walletStr, PostComment repo prNumber invalid_wallet_text]"
proof -
  have p: "call_parseWalletAddress (paymentProvider m) walletStr s
             = (Inl e, (fst s, snd s @ [ParseWalletAddress walletStr]))"
    using assms(2) by (simp add: call_defs logged_def)
  have 1: "handleClaim m rd repo prNumber commenter body s
           = call_postComment (issueProvider m) repo prNumber invalid_wallet_text
               (fst s, snd s @ [ParseWalletAddress walletStr])"
    using assms(1) p by (simp add: handleClaim_def)
  obtain x s1 where c: "call_postComment (issueProvider m) repo prNumber invalid_wallet_text
               (fst s, snd s @ [ParseWalletAddress walletStr]) = (x, s1)"
    by (cases "call_postComment (issueProvider m) repo prNumber invalid_wallet_text
               (fst s, snd s @ [ParseWalletAddress walletStr])")
  from postComment_log[OF c]
  have "new_calls s s1 = [ParseWalletAddress walletStr, PostComment repo prNumber invalid_wallet_text]"
    by (intro new_calls_eq) simp
  with 1 c show ?thesis by simp
qed

lemma startsWith_own_prefix: "startsWith_ignoring_case p (p @ rest)"
  by (simp add: startsWith_ignoring_case_def)

lemma claimPattern_test_claimed_text: "claimPattern_test (claimed_text who prNumber url)"
proof -
  have "claimed_text who prNumber url = ''**Bounty claimed**'' @ (NL @ NL @
     ''This bounty has been claimed by @'' @ who @ '' via PR #'' @
     number_text prNumber @ ''.'' @ NL @ ''Transaction: '' @ url)"
    by (simp add: claimed_text_def)
  moreover have "claimPattern_test (''**Bounty claimed**'' @ rest)" for rest
  proof -
    have "claimPattern_matches_at (''**Bounty claimed**'' @ rest)"
      unfolding claimPattern_matches_at_def using startsWith_own_prefix by blast
    then show ?thesis by simp
  qed
  ultimately show ?thesis by simp
qed

lemma some_claim_comment_cases:
  assumes "\<exists>c \<in> set cs. is_claim_marker c"
  shows "some_claim_comment cs
       = (if \<forall>c \<in> set (takeWhile (\<lambda>c. \<not> is_claim_marker c) cs). ic_user_type c \<noteq> None
          then Inr True else Inl (TypeError ''Cannot read properties of null''))"
  using assms
proof (induction cs)
  case Nil
  then show ?case by simp
next
  case (Cons c cs)
  show ?case
  proof (cases "ic_user_type c")
    case None
    then show ?thesis by (simp add: is_claim_marker_def)
  next
    case (Some ty)
    show ?thesis
    proof (cases "is_claim_marker c")
      case True
      with Some show ?thesis by (simp add: is_claim_marker_def)
    next
      case False
      with Cons.prems have "\<exists>c \<in> set cs. is_claim_marker c" by auto
      from Cons.IH[OF this] Some False show ?thesis by (auto simp: is_claim_marker_def)
    qed
  qed
qed

lemma validateClaim_already_claimed:
  assumes "call_getPullRequest ip repo prNumber s = (Inr prData, s1)"
    and "requireMergedPR config = Some False \<or> merged prData"
    and "user_login prData = commenter"
    and "call_findLinkedIssueWithBounty ip repo prNumber prData bc s1 = (Inr (Some li), s2)"
    and "if skipAssignmentCheck config = Some True then s3 = s2
         else call_wasUserEverAssigned ip repo (li_number li) commenter s2 = (Inr True, s3)"
    and "call_isBountyAlreadyClaimed ip repo (li_number li) s3 = (Inr True, s4)"
  shows "validateClaim ip config repo prNumber commenter bc s
           = (rejected (already_claimed_text (li_number li)), s4)"
  using assms by (auto simp: validateClaim_def split: if_splits)

lemma handleClaim_release_posts_marker:
  assumes run: "handleClaim_release m rd repo prNumber commenter wallet (Some li) s = (Inr (), s')"
  shows "\<exists>url. PostComment repo (li_number li) (claimed_text commenter prNumber url)
           \<in> set (new_calls s s')"
proof -
  obtain h s1 where c1: "call_getRepositoryHash (paymentProvider m) repo s = (h, s1)"
    by (cases "call_getRepositoryHash (paymentProvider m) repo s")
  obtain x s2 where c2:
    "call_releaseEscrow (paymentProvider m) (li_number li) h wallet s1 = (x, s2)"
    by (cases "call_releaseEscrow (paymentProvider m) (li_number li) h wallet s1")
  from run c1 c2 obtain tx where x: "x = Inr tx"
    by (cases x) (simp_all add: handleClaim_release_def)
  let ?c3 = "released_text rd commenter li wallet (explorerUrl tx)"
  obtain y s3 where c3: "call_postComment (issueProvider m) repo prNumber ?c3 s2 = (y, s3)"
    by (cases "call_postComment (issueProvider m) repo prNumber ?c3 s2")
  from run c1 c2 x c3 obtain u where y: "y = Inr u"
    by (cases y) (simp_all add: handleClaim_release_def)
  let ?c4 = "claimed_text commenter prNumber (explorerUrl tx)"
  obtain z s4 where c4: "call_postComment (issueProvider m) repo (li_number li) ?c4 s3 = (z, s4)"
    by (cases "call_postComment (issueProvider m) repo (li_number li) ?c4 s3")
  from run c1 c2 x c3 y c4 obtain u' where z: "z = Inr u'"
    by (cases z) (simp_all add: handleClaim_release_def)
  from run c1 c2 x c3 y c4 z have "\<exists>d. s' = notifyAll (notificationProviders m) d s4"
    by (auto simp: handleClaim_release_def)
  then obtain d where "s' = notifyAll (notificationProviders m) d s4" ..
  with getRepositoryHash_log[OF c1] releaseEscrow_log[OF c2] postComment_log[OF c3]
    postComment_log[OF c4]
  have "snd s' = snd s @ [GetRepositoryHash repo, ReleaseEscrow (li_number li) h wallet,
           PostComment repo prNumber ?c3, PostComment repo (li_number li) ?c4]
         @ map (\<lambda>p. Notify (getName p) d) (notificationProviders m)"
    by (simp add: notifyAll_log)
  then have "new_calls s s' = [GetRepositoryHash repo, ReleaseEscrow (li_number li) h wallet,
           PostComment repo prNumber ?c3, PostComment repo (li_number li) ?c4]
         @ map (\<lambda>p. Notify (getName p) d) (notificationProviders m)"
    by (rule new_calls_eq)
  then show ?thesis by (intro exI[of _ "explorerUrl tx"]) simp
qed

lemma detector_finds_bot_marker:
  assumes "axios_get (''https://api.github.com/repos/'' @ repo @ ''/issues/'' @
                      number_text n @ ''/comments'') w = (Inr comments, w')"
    and "\<lparr>ic_user_type = Some ''Bot'', ic_body = claimed_text who0 pr0 url0\<rparr> \<in> set comments"
  shows "(GitHubProvider_isBountyAlreadyClaimed axios_get repo n w = (Inr True, w'))
       = (\<forall>c \<in> set (takeWhile (\<lambda>c. \<not> is_claim_marker c) comments). ic_user_type c \<noteq> None)"
proof -
  have "is_claim_marker \<lparr>ic_user_type = Some ''Bot'', ic_body = claimed_text who0 pr0 url0\<rparr>"
    by (simp add: is_claim_marker_def claimPattern_test_claimed_text)
  with assms(2) have "\<exists>c \<in> set comments. is_claim_marker c" by blast
  from some_claim_comment_cases[OF this] assms(1) show ?thesis
    by (simp add: GitHubProvider_isBountyAlreadyClaimed_def)
qed

subsection \<open>The scenario\<close>

lemma claim_argument_scenario: "claim_argument ''/claim 7xKXtg2C'' = Some ''7xKXtg2C''"
  by (simp add: claim_argument_def split_whitespace_def space_at_def white_space_def)

lemma claim_argument_missing: "claim_argument ''/claim'' = None"
  by (simp add: claim_argument_def split_whitespace_def space_at_def white_space_def)

lemma claim_argument_unparseable: "claim_argument ''/claim wallet'' = Some ''wallet''"
  by (simp add: claim_argument_def split_whitespace_def space_at_def white_space_def)

lemma claim_argument_no_break_space:
  "claim_argument (''/claim'' @ [CHR 0xC2, CHR 0xA0] @ ''wallet'') = Some ''wallet''"
  by (simp add: claim_argument_def split_whitespace_def space_at_def white_space_def)

subsection \<open>The label handler and the flags\<close>

lemma handleLabeled_create_log:
  assumes run: "handleLabeled_create m rd repo issueNumber sender amount s = (r, s')"
  shows "\<exists>cs. snd s' = snd s @ cs \<and> (\<forall>c \<in> set cs. \<forall>a b. c \<noteq> CheckIsMaintainer a b)"
proof -
  obtain h s1 where c1: "call_getRepositoryHash (paymentProvider m) repo s = (h, s1)"
    by (cases "call_getRepositoryHash (paymentProvider m) repo s")
  from getRepositoryHash_log[OF c1]
  have l1: "snd s1 = snd s @ [GetRepositoryHash repo]" by simp
  obtain x s2 where c2: "call_createEscrow (paymentProvider m) issueNumber h amount s1 = (x, s2)"
    by (cases "call_createEscrow (paymentProvider m) issueNumber h amount s1")
  from createEscrow_log[OF c2] l1
  have l2: "snd s2 = snd s @ [GetRepositoryHash repo, CreateEscrow issueNumber h amount]"
    by simp
  show ?thesis
  proof (cases x)
    case (Inl e)
    with run c1 c2 have "s' = s2" by (simp add: handleLabeled_create_def)
    with l2 show ?thesis
      by (intro exI[of _ "[GetRepositoryHash repo, CreateEscrow issueNumber h amount]"]) simp
  next
    case (Inr tx)
    let ?c3 = "created_text rd amount (explorerUrl tx) issueNumber"
    obtain y s3 where c3: "call_postComment (issueProvider m) repo issueNumber ?c3 s2 = (y, s3)"
      by (cases "call_postComment (issueProvider m) repo issueNumber ?c3 s2")
    from postComment_log[OF c3] l2
    have l3: "snd s3 = snd s @ [GetRepositoryHash repo, CreateEscrow issueNumber h amount,
                PostComment repo issueNumber ?c3]" by simp
    show ?thesis
    proof (cases y)
      case (Inl e)
      with run c1 c2 c3 Inr have "s' = s3" by (simp add: handleLabeled_create_def)
      with l3 show ?thesis
        by (intro exI[of _ "[GetRepositoryHash repo, CreateEscrow issueNumber h amount,
                PostComment repo issueNumber ?c3]"]) simp
    next
      case yr: (Inr u)
      with run c1 c2 c3 Inr have "\<exists>d. s' = notifyAll (notificationProviders m) d s3"
        by (auto simp: handleLabeled_create_def)
      then obtain d where "s' = notifyAll (notificationProviders m) d s3" ..
      with l3 have "snd s' = snd s @ [GetRepositoryHash repo,
                CreateEscrow issueNumber h amount, PostComment repo issueNumber ?c3]
              @ map (\<lambda>p. Notify (getName p) d) (notificationProviders m)"
        by (simp add: notifyAll_log)
      then show ?thesis
        by (intro exI[of _ "[GetRepositoryHash repo,
                CreateEscrow issueNumber h amount, PostComment repo issueNumber ?c3]
              @ map (\<lambda>p. Notify (getName p) d) (notificationProviders m)"]) auto
    qed
  qed
qed

text \<open>The part of \<open>handleLabeled\<close> after the maintainer check.\<close>

lemma handleLabeled_rest_log:
  assumes "(case getBountyAmount (bountyConfig m) label of
              None \<Rightarrow> (Inr (), s1)
            | Some amount \<Rightarrow>
                (case handleLabeled_create m rd repo issueNumber sender amount s1 of
                   (Inl e, s2) \<Rightarrow>
                     call_postComment (issueProvider m) repo issueNumber
                       (''Failed to create bounty escrow: '' @ message e) s2
                 | (Inr u, s2) \<Rightarrow> (Inr (), s2))) = (r, s')"
  shows "\<exists>cs. snd s' = snd s1 @ cs \<and> (\<forall>c \<in> set cs. \<forall>a b. c \<noteq> CheckIsMaintainer a b)"
proof (cases "getBountyAmount (bountyConfig m) label")
  case None
  with assms show ?thesis by simp
next
  case (Some amount)
  obtain x s2 where c: "handleLabeled_create m rd repo issueNumber sender amount s1 = (x, s2)"
    by (cases "handleLabeled_create m rd repo issueNumber sender amount s1")
  from handleLabeled_create_log[OF c] obtain cs where
    cs: "snd s2 = snd s1 @ cs" "\<forall>c \<in> set cs. \<forall>a b. c \<noteq> CheckIsMaintainer a b" by blast
  show ?thesis
  proof (cases x)
    case (Inl e)
    with assms Some c have "call_postComment (issueProvider m) repo issueNumber
                       (''Failed to create bounty escrow: '' @ message e) s2 = (r, s')" by simp
    from postComment_log[OF this] cs show ?thesis
      by (intro exI[of _ "cs @ [PostComment repo issueNumber
                       (''Failed to create bounty escrow: '' @ message e)]"]) auto
  next
    case (Inr u)
    with assms Some c have "s' = s2" by simp
    with cs show ?thesis by blast
  qed
qed

lemma labeled_check_enabled:
  assumes p: "issue_number payload = Some n" "n \<noteq> 0"
      "repository_full_name payload = Some repo" "repo \<noteq> []"
      "label_name payload = Some label" "label \<noteq> []"
      "sender_login payload = Some sender" "sender \<noteq> []"
    and on: "requireMaintainerForBountyCreation (securityConfig m) \<noteq> Some False"
  shows "take 1 (new_calls s (snd (handleLabeled m rd payload s))) = [CheckIsMaintainer repo sender]
       \<and> (\<forall>s1. call_checkIsMaintainer (issueProvider m) repo sender s = (Inr False, s1)
             \<longrightarrow> handleLabeled m rd payload s
                   = call_postComment (issueProvider m) repo n
                       ''Only repository maintainers can create bounties.'' s1)"
proof -
  obtain x s1 where c: "call_checkIsMaintainer (issueProvider m) repo sender s = (x, s1)"
    by (cases "call_checkIsMaintainer (issueProvider m) repo sender s")
  from checkIsMaintainer_log[OF c] have l1: "snd s1 = snd s @ [CheckIsMaintainer repo sender]" .
  obtain r s' where h: "handleLabeled m rd payload s = (r, s')"
    by (cases "handleLabeled m rd payload s")
  have "\<exists>cs. snd s' = snd s1 @ cs"
  proof (cases x)
    case (Inl e)
    with h p on c have "s' = s1" by (simp add: handleLabeled_def)
    then show ?thesis by simp
  next
    case (Inr b)
    show ?thesis
    proof (cases b)
      case False
      obtain y s2 where pc: "call_postComment (issueProvider m) repo n
                       ''Only repository maintainers can create bounties.'' s1 = (y, s2)"
        by (cases "call_postComment (issueProvider m) repo n
                       ''Only repository maintainers can create bounties.'' s1")
      with h p on c Inr False have "s' = s2" by (simp add: handleLabeled_def)
      with postComment_log[OF pc] show ?thesis by blast
    next
      case True
      with h p on c Inr have "(case getBountyAmount (bountyConfig m) label of
              None \<Rightarrow> (Inr (), s1)
            | Some amount \<Rightarrow>
                (case handleLabeled_create m rd repo n sender amount s1 of
                   (Inl e, s2) \<Rightarrow>
                     call_postComment (issueProvider m) repo n
                       (''Failed to create bounty escrow: '' @ message e) s2
                 | (Inr u, s2) \<Rightarrow> (Inr (), s2))) = (r, s')"
        by (simp add: handleLabeled_def)
      from handleLabeled_rest_log[OF this] show ?thesis by blast
    qed
  qed
  then obtain cs where "snd s' = snd s1 @ cs" ..
  with l1 have "new_calls s s' = CheckIsMaintainer repo sender # cs"
    by (intro new_calls_eq) simp
  with h have 1: "take 1 (new_calls s (snd (handleLabeled m rd payload s)))
                    = [CheckIsMaintainer repo sender]" by simp
  have 2: "\<forall>s1. call_checkIsMaintainer (issueProvider m) repo sender s = (Inr False, s1)
             \<longrightarrow> handleLabeled m rd payload s
                   = call_postComment (issueProvider m) repo n
                       ''Only repository maintainers can create bounties.'' s1"
    using p on by (auto simp: handleLabeled_def split: prod.splits)
  from 1 2 show ?thesis ..
qed

lemma labeled_check_disabled:
  assumes p: "issue_number payload = Some n" "n \<noteq> 0"
      "repository_full_name payload = Some repo" "repo \<noteq> []"
      "label_name payload = Some label" "label \<noteq> []"
      "sender_login payload = Some sender" "sender \<noteq> []"
    and off: "requireMaintainerForBountyCreation (securityConfig m) = Some False"
  shows "\<forall>c \<in> set (new_calls s (snd (handleLabeled m rd payload s))).
           \<forall>a b. c \<noteq> CheckIsMaintainer a b"
proof -
  obtain r s' where h: "handleLabeled m rd payload s = (r, s')"
    by (cases "handleLabeled m rd payload s")
  with p off have "(case getBountyAmount (bountyConfig m) label of
              None \<Rightarrow> (Inr (), s)
            | Some amount \<Rightarrow>
                (case handleLabeled_create m rd repo n sender amount s of
                   (Inl e, s2) \<Rightarrow>
                     call_postComment (issueProvider m) repo n
                       (''Failed to create bounty escrow: '' @ message e) s2
                 | (Inr u, s2) \<Rightarrow> (Inr (), s2))) = (r, s')"
    by (simp add: handleLabeled_def)
  from handleLabeled_rest_log[OF this] obtain cs where
    "snd s' = snd s @ cs" "\<forall>c \<in> set cs. \<forall>a b. c \<noteq> CheckIsMaintainer a b" by blast
  then have "new_calls s s' = cs" "\<forall>c \<in> set cs. \<forall>a b. c \<noteq> CheckIsMaintainer a b"
    by (simp_all add: new_calls_eq)
  with h show ?thesis by simp
qed

lemma merged_check_enabled:
  assumes "call_getPullRequest ip repo prNumber s = (Inr prData, s1)" "\<not> merged prData"
    and "requireMergedPR config \<noteq> Some False"
  shows "validateClaim ip config repo prNumber commenter bc s = (rejected not_merged_text, s1)"
  using assms by (simp add: validateClaim_def)

lemma getPullRequest_log:
  "call_getPullRequest ip repo n s = (x, s1) \<Longrightarrow> snd s1 = snd s @ [GetPullRequest repo n]"
  by (auto simp: call_defs logged_def split: prod.splits)

lemma findLinkedIssueWithBounty_log:
  "call_findLinkedIssueWithBounty ip repo n d bc s = (x, s1)
     \<Longrightarrow> snd s1 = snd s @ [FindLinkedIssueWithBounty repo n]"
  by (auto simp: call_defs logged_def split: prod.splits)

lemma wasUserEverAssigned_log:
  "call_wasUserEverAssigned ip repo n u s = (x, s1)
     \<Longrightarrow> snd s1 = snd s @ [WasUserEverAssigned repo n u]"
  by (auto simp: call_defs logged_def split: prod.splits)

lemma isBountyAlreadyClaimed_log:
  "call_isBountyAlreadyClaimed ip repo n s = (x, s1)
     \<Longrightarrow> snd s1 = snd s @ [IsBountyAlreadyClaimed repo n]"
  by (auto simp: call_defs logged_def split: prod.splits)

lemma validateClaim_all_pass:
  assumes "call_getPullRequest ip repo prNumber s = (Inr prData, s1)"
    and "requireMergedPR config = Some False \<or> merged prData"
    and "user_login prData = commenter"
    and "call_findLinkedIssueWithBounty ip repo prNumber prData bc s1 = (Inr (Some li), s2)"
    and "if skipAssignmentCheck config = Some True then s3 = s2
         else call_wasUserEverAssigned ip repo (li_number li) commenter s2 = (Inr True, s3)"
    and "call_isBountyAlreadyClaimed ip repo (li_number li) s3 = (r5, s4)"
    and "r5 \<noteq> Inr True"
  shows "validateClaim ip config repo prNumber commenter bc s
           = (\<lparr>isValid = True, linkedIssue = Some li, errors = []\<rparr>, s4)"
proof (cases r5)
  case (Inl e)
  with assms show ?thesis by (auto simp: validateClaim_def split: if_splits)
next
  case (Inr b)
  with assms have "r5 = Inr False" by (cases b) simp_all
  with assms show ?thesis by (auto simp: validateClaim_def split: if_splits)
qed

lemma assignment_check_enabled:
  assumes c1: "call_getPullRequest ip repo prNumber s = (Inr prData, s1)"
    and m: "requireMergedPR config = Some False \<or> merged prData"
    and a: "user_login prData = commenter"
    and c3: "call_findLinkedIssueWithBounty ip repo prNumber prData bc s1 = (Inr (Some li), s2)"
    and on: "skipAssignmentCheck config \<noteq> Some True"
  shows "take 3 (new_calls s (snd (validateClaim ip config repo prNumber commenter bc s)))
           = [GetPullRequest repo prNumber, FindLinkedIssueWithBounty repo prNumber,
              WasUserEverAssigned repo (li_number li) commenter]
       \<and> (\<forall>s3. call_wasUserEverAssigned ip repo (li_number li) commenter s2 = (Inr False, s3)
             \<longrightarrow> validateClaim ip config repo prNumber commenter bc s
                   = (rejected (not_assigned_text commenter (li_number li)), s3))"
proof -
  obtain x s3 where c4: "call_wasUserEverAssigned ip repo (li_number li) commenter s2 = (x, s3)"
    by (cases "call_wasUserEverAssigned ip repo (li_number li) commenter s2")
  obtain y s4 where c5: "call_isBountyAlreadyClaimed ip repo (li_number li) s3 = (y, s4)"
    by (cases "call_isBountyAlreadyClaimed ip repo (li_number li) s3")
  from getPullRequest_log[OF c1] findLinkedIssueWithBounty_log[OF c3]
    wasUserEverAssigned_log[OF c4]
  have l3: "snd s3 = snd s @ [GetPullRequest repo prNumber, FindLinkedIssueWithBounty repo prNumber,
              WasUserEverAssigned repo (li_number li) commenter]" by simp
  have "snd (validateClaim ip config repo prNumber commenter bc s) = s3
      \<or> snd (validateClaim ip config repo prNumber commenter bc s) = s4"
    using c1 m a c3 on c4 c5
    by (auto simp: validateClaim_def split: sum.splits bool.splits if_splits)
  with l3 isBountyAlreadyClaimed_log[OF c5]
  have "\<exists>cs. snd (snd (validateClaim ip config repo prNumber commenter bc s))
           = snd s @ [GetPullRequest repo prNumber, FindLinkedIssueWithBounty repo prNumber,
              WasUserEverAssigned repo (li_number li) commenter] @ cs"
    by auto
  then obtain cs where "snd (snd (validateClaim ip config repo prNumber commenter bc s))
           = snd s @ [GetPullRequest repo prNumber, FindLinkedIssueWithBounty repo prNumber,
              WasUserEverAssigned repo (li_number li) commenter] @ cs" ..
  then have "new_calls s (snd (validateClaim ip config repo prNumber commenter bc s))
           = [GetPullRequest repo prNumber, FindLinkedIssueWithBounty repo prNumber,
              WasUserEverAssigned repo (li_number li) commenter] @ cs"
    by (rule new_calls_eq)
  then have 1: "take 3 (new_calls s (snd (validateClaim ip config repo prNumber commenter bc s)))
           = [GetPullRequest repo prNumber, FindLinkedIssueWithBounty repo prNumber,
              WasUserEverAssigned repo (li_number li) commenter]" by simp
  have 2: "\<forall>s3. call_wasUserEverAssigned ip repo (li_number li) commenter s2 = (Inr False, s3)
             \<longrightarrow> validateClaim ip config repo prNumber commenter bc s
                   = (rejected (not_assigned_text commenter (li_number li)), s3)"
    using c1 m a c3 on by (auto simp: validateClaim_def)
  from 1 2 show ?thesis ..
qed

lemma assignment_check_skipped:
  assumes c1: "call_getPullRequest ip repo prNumber s = (Inr prData, s1)"
    and m: "requireMergedPR config = Some False \<or> merged prData"
    and a: "user_login prData = commenter"
    and c3: "call_findLinkedIssueWithBounty ip repo prNumber prData bc s1 = (Inr (Some li), s2)"
    and off: "skipAssignmentCheck config = Some True"
  shows "new_calls s (snd (validateClaim ip config repo prNumber commenter bc s))
           = [GetPullRequest repo prNumber, FindLinkedIssueWithBounty repo prNumber,
              IsBountyAlreadyClaimed repo (li_number li)]"
proof -
  obtain y s4 where c5: "call_isBountyAlreadyClaimed ip repo (li_number li) s2 = (y, s4)"
    by (cases "call_isBountyAlreadyClaimed ip repo (li_number li) s2")
  have "snd (validateClaim ip config repo prNumber commenter bc s) = s4"
    using c1 m a c3 off c5
    by (auto simp: validateClaim_def split: sum.splits bool.splits)
  with getPullRequest_log[OF c1] findLinkedIssueWithBounty_log[OF c3]
    isBountyAlreadyClaimed_log[OF c5]
  show ?thesis by (intro new_calls_eq) simp
qed

lemma new_BountyManager_default_flags:
  assumes "config_securityConfig c = None"
  shows "skipAssignmentCheck (securityConfig (new_BountyManager c)) = None
       \<and> requireMergedPR (securityConfig (new_BountyManager c)) = None
       \<and> requireMaintainerForBountyCreation (securityConfig (new_BountyManager c)) = None"
  using assms by (simp add: new_BountyManager_def)

section \<open>The instruction encoder\<close>

text \<open>
  Claim C1. For a repository hash of 32 octets and an issue number and an amount within
  the unsigned 64-bit range, the encoded CreateEscrow instruction is the discriminator 0,
  the hash, the issue number and the amount, each number as eight octets least
  significant first, 49 octets in all; the encoded ReleaseEscrow instruction is the
  discriminator 1, the hash and the issue number, 41 octets in all. The octets are a
  function of the fields alone.
\<close>

theorem encoding_layout_and_length:
  assumes "length repositoryHash = 32"
    and "0 \<le> issueNumber" "issueNumber < 2 ^ 64"
    and "0 \<le> amount" "amount < 2 ^ 64"
  shows "encodeCreateEscrow repositoryHash issueNumber amount
           = Inr (0 # repositoryHash
                    @ map (\<lambda>i. word_of_int (issueNumber div 256 ^ i)) [0..<8]
                    @ map (\<lambda>i. word_of_int (amount div 256 ^ i)) [0..<8])
       \<and> (\<exists>d. encodeCreateEscrow repositoryHash issueNumber amount = Inr d
              \<and> length d = 1 + 32 + 8 + 8)
       \<and> encodeReleaseEscrow repositoryHash issueNumber
           = Inr (1 # repositoryHash @ map (\<lambda>i. word_of_int (issueNumber div 256 ^ i)) [0..<8])
       \<and> (\<exists>d. encodeReleaseEscrow repositoryHash issueNumber = Inr d \<and> length d = 1 + 32 + 8)"
proof -
  have c: "encodeCreateEscrow repositoryHash issueNumber amount
             = Inr (0 # repositoryHash @ u64_le issueNumber @ u64_le amount)"
    using assms
    by (simp add: encodeCreateEscrow_def serialize_create
        InstructionDiscriminator_CreateEscrow_def)
  have r: "encodeReleaseEscrow repositoryHash issueNumber
             = Inr (1 # repositoryHash @ u64_le issueNumber)"
    using assms
    by (simp add: encodeReleaseEscrow_def serialize_release
        InstructionDiscriminator_ReleaseEscrow_def)
  from c r assms(1) show ?thesis
    by (simp add: u64_le_def)
qed

theorem encoding_layout_and_length_witness:
  "length (replicate 32 (7 :: byte)) = 32
   \<and> encodeCreateEscrow (replicate 32 7) 42 2000000000
       = Inr (0 # replicate 32 7 @ [42, 0, 0, 0, 0, 0, 0, 0] @ [0, 148, 53, 119, 0, 0, 0, 0])
   \<and> encodeReleaseEscrow (replicate 32 7) 42
       = Inr (1 # replicate 32 7 @ [42, 0, 0, 0, 0, 0, 0, 0])"
  using encoding_layout_and_length [of "replicate 32 7" 42 2000000000]
  by (simp add: upt_rec)

section \<open>The escrow address\<close>



section \<open>The gateway's preconditions\<close>

text \<open>
  Claim C7. When the account lookup at the derived address finds an account,
  \<open>createEscrow\<close> raises the already-exists error; when it finds none, \<open>releaseEscrow\<close>
  raises the does-not-exist error. In both cases the lookup is the only call made on the
  connection, the world is as the lookup left it, and the outcome is the same whatever
  the repository hash and the amount are, so nothing was encoded or sent before.
\<close>

theorem gateway_preconditions_fail_before_submission:
  assumes "deriveEscrowPda fpa (programId sp) rh n = Inr pda"
    and "getAccountInfo (connection sp) pda w = (Inr (Some account), w1)"
    and "deriveEscrowPda fpa' (programId sp') rh' n' = Inr pda'"
    and "getAccountInfo (connection sp') pda' w' = (Inr None, w1')"
  shows "SolanaProvider_createEscrow fpa sp n rh amount (w, t)
           = (Inl (Error ''Escrow already exists for this issue''),
              (w1, t @ [GetAccountInfo pda]))
       \<and> SolanaProvider_releaseEscrow fpa' sp' n' rh' recipient (w', t')
           = (Inl (Error ''Escrow does not exist for this issue''),
              (w1', t' @ [GetAccountInfo pda']))"
  using assms
  by (simp add: SolanaProvider_createEscrow_def SolanaProvider_releaseEscrow_def logged_def)

theorem gateway_preconditions_fail_before_submission_witness:
  "deriveEscrowPda scenario_pda (programId (scenario_solana (Some scenario_account)))
       (replicate 32 7) 42 = Inr 7
   \<and> getAccountInfo (connection (scenario_solana (Some scenario_account))) 7 ()
       = (Inr (Some scenario_account), ())
   \<and> getAccountInfo (connection (scenario_solana None)) 7 () = (Inr None, ())
   \<and> SolanaProvider_createEscrow scenario_pda (scenario_solana (Some scenario_account)) 42
       (replicate 32 7) 2000000000 ((), [])
       = (Inl (Error ''Escrow already exists for this issue''), ((), [GetAccountInfo 7]))
   \<and> SolanaProvider_releaseEscrow scenario_pda (scenario_solana None) 42
       (replicate 32 7) 9 ((), [])
       = (Inl (Error ''Escrow does not exist for this issue''), ((), [GetAccountInfo 7]))"
proof -
  have d: "deriveEscrowPda scenario_pda (programId (scenario_solana (Some scenario_account)))
       (replicate 32 7) 42 = Inr 7"
    by (simp add: deriveEscrowPda_def escrowSeeds_def numberToLeBytes_def scenario_pda_def)
  have d': "deriveEscrowPda scenario_pda (programId (scenario_solana None))
       (replicate 32 7) 42 = Inr 7"
    by (simp add: deriveEscrowPda_def escrowSeeds_def numberToLeBytes_def scenario_pda_def)
  have g: "getAccountInfo (connection (scenario_solana (Some scenario_account))) 7 ()
       = (Inr (Some scenario_account), ())"
    by (simp add: scenario_solana_def scenario_connection_def)
  have g': "getAccountInfo (connection (scenario_solana None)) 7 () = (Inr None, ())"
    by (simp add: scenario_solana_def scenario_connection_def)
  from gateway_preconditions_fail_before_submission [OF d g d' g', of 2000000000 "[]" 9 "[]"]
    d g g'
  show ?thesis by simp
qed

section \<open>The signature verifier\<close>

text \<open>
  Claim C3. The verifier answers \<open>false\<close> for an empty signature or an empty secret, but
  it does raise: a signature that is not empty and whose length differs from the 71
  characters of the expected one reaches \<open>timingSafeEqual\<close> with buffers of different
  lengths. Here the signature is \<open>sha256=abc\<close> and the secret is \<open>s\<close>.
\<close>

theorem verifier_raises_on_a_short_signature:
  "verifyGitHubSignature hmac body ''sha256=abc'' ''s''
     = Inl (RangeError ''Input buffers must have the same byte length'')"
  by (simp add: verifyGitHubSignature_def timingSafeEqual_def Let_def length_Buffer_from
      length_digest_hex)

lemma verifier_fails_closed:
  "sig = [] \<or> secret = [] \<Longrightarrow> verifyGitHubSignature hmac body sig secret = Inr False"
  by (auto simp: verifyGitHubSignature_def)




section \<open>The validation pipeline\<close>

text \<open>
  Claim C5. The calls that \<open>validateClaim\<close> makes are an initial piece of the calls of the
  five checks in their order. The result is valid exactly when the pull request was
  fetched and is merged (where that is required), the commenter is its author, a linked
  issue with a bounty was found, the commenter was assigned (where that is checked) and
  the already-claimed lookup did not answer \<open>true\<close>, an exception of that lookup
  included; the result then carries the linked issue. A result that is not valid carries
  no linked issue and the reason of the first check that failed, an exception in checks
  1, 3 and 4 included: every check before it passed, and the final state is the one that
  the failing check's call left, so no later check ran.
\<close>

theorem validateClaim_five_checks:
  assumes run: "validateClaim ip config repo prNumber commenter bc s = (v, s')"
  shows "(\<exists>n. prefix (new_calls s s') (validation_calls config repo prNumber commenter n))
   \<and> isValid v =
     (\<exists>prData s1 li s2 s3 r5.
        call_getPullRequest ip repo prNumber s = (Inr prData, s1)
      \<and> (requireMergedPR config = Some False \<or> merged prData)
      \<and> user_login prData = commenter
      \<and> call_findLinkedIssueWithBounty ip repo prNumber prData bc s1
           = (Inr (Some li), s2)
      \<and> (if skipAssignmentCheck config = Some True then s3 = s2
          else call_wasUserEverAssigned ip repo (li_number li) commenter s2 = (Inr True, s3))
      \<and> call_isBountyAlreadyClaimed ip repo (li_number li) s3 = (r5, s')
      \<and> r5 \<noteq> Inr True
      \<and> linkedIssue v = Some li \<and> errors v = [])
   \<and> (\<not> isValid v \<longrightarrow>
     linkedIssue v = None \<and>
     ((\<exists>e. call_getPullRequest ip repo prNumber s = (Inl e, s')
          \<and> errors v = [''Failed to verify pull request: '' @ message e])
    \<or> (\<exists>prData. call_getPullRequest ip repo prNumber s = (Inr prData, s')
          \<and> requireMergedPR config \<noteq> Some False \<and> \<not> merged prData
          \<and> errors v = [not_merged_text])
    \<or> (\<exists>prData. call_getPullRequest ip repo prNumber s = (Inr prData, s')
          \<and> (requireMergedPR config = Some False \<or> merged prData)
          \<and> user_login prData \<noteq> commenter
          \<and> errors v = [not_author_text commenter (user_login prData)])
    \<or> (\<exists>prData s1 e. call_getPullRequest ip repo prNumber s = (Inr prData, s1)
          \<and> (requireMergedPR config = Some False \<or> merged prData)
          \<and> user_login prData = commenter
          \<and> call_findLinkedIssueWithBounty ip repo prNumber prData bc s1 = (Inl e, s')
          \<and> errors v = [''Failed to verify linked issue: '' @ message e])
    \<or> (\<exists>prData s1. call_getPullRequest ip repo prNumber s = (Inr prData, s1)
          \<and> (requireMergedPR config = Some False \<or> merged prData)
          \<and> user_login prData = commenter
          \<and> call_findLinkedIssueWithBounty ip repo prNumber prData bc s1 = (Inr None, s')
          \<and> errors v = [no_bounty_text])
    \<or> (\<exists>prData s1 li s2 e. call_getPullRequest ip repo prNumber s = (Inr prData, s1)
          \<and> (requireMergedPR config = Some False \<or> merged prData)
          \<and> user_login prData = commenter
          \<and> call_findLinkedIssueWithBounty ip repo prNumber prData bc s1 = (Inr (Some li), s2)
          \<and> skipAssignmentCheck config \<noteq> Some True
          \<and> call_wasUserEverAssigned ip repo (li_number li) commenter s2 = (Inl e, s')
          \<and> errors v = [''Failed to verify assignment: '' @ message e])
    \<or> (\<exists>prData s1 li s2. call_getPullRequest ip repo prNumber s = (Inr prData, s1)
          \<and> (requireMergedPR config = Some False \<or> merged prData)
          \<and> user_login prData = commenter
          \<and> call_findLinkedIssueWithBounty ip repo prNumber prData bc s1 = (Inr (Some li), s2)
          \<and> skipAssignmentCheck config \<noteq> Some True
          \<and> call_wasUserEverAssigned ip repo (li_number li) commenter s2 = (Inr False, s')
          \<and> errors v = [not_assigned_text commenter (li_number li)])
    \<or> (\<exists>prData s1 li s2 s3. call_getPullRequest ip repo prNumber s = (Inr prData, s1)
          \<and> (requireMergedPR config = Some False \<or> merged prData)
          \<and> user_login prData = commenter
          \<and> call_findLinkedIssueWithBounty ip repo prNumber prData bc s1 = (Inr (Some li), s2)
          \<and> (if skipAssignmentCheck config = Some True then s3 = s2
              else call_wasUserEverAssigned ip repo (li_number li) commenter s2 = (Inr True, s3))
          \<and> call_isBountyAlreadyClaimed ip repo (li_number li) s3 = (Inr True, s')
          \<and> errors v = [already_claimed_text (li_number li)])))"
  by (rule conjI [OF validateClaim_order [OF run]
        conjI [OF validateClaim_valid_iff [OF run]
          impI [OF validateClaim_first_failure [OF run]]]])

theorem validateClaim_five_checks_witness:
  "validateClaim
     (scenario_issues (Inr scenario_pr) (Inr (Some scenario_linked)) (Inr True)
        (Inl (Error ''timeout'')) (Inr True))
     (scenario_flags None None None) ''org/repo'' 50 ''alice'' getDefaultBountyConfig ((), [])
     = (\<lparr>isValid = True, linkedIssue = Some scenario_linked, errors = []\<rparr>,
        ((), [GetPullRequest ''org/repo'' 50, FindLinkedIssueWithBounty ''org/repo'' 50,
              WasUserEverAssigned ''org/repo'' 42 ''alice'',
              IsBountyAlreadyClaimed ''org/repo'' 42]))
   \<and> validateClaim
     (scenario_issues (Inr (scenario_pr\<lparr>merged := False\<rparr>)) (Inr (Some scenario_linked))
        (Inr True) (Inr False) (Inr True))
     (scenario_flags None None None) ''org/repo'' 50 ''alice'' getDefaultBountyConfig ((), [])
     = (rejected not_merged_text, ((), [GetPullRequest ''org/repo'' 50]))
   \<and> \<not> isValid (rejected not_merged_text)
   \<and> linkedIssue (rejected not_merged_text) = None
   \<and> (\<exists>n. prefix [GetPullRequest ''org/repo'' 50]
          (validation_calls (scenario_flags None None None) ''org/repo'' 50 ''alice'' n))"
proof -
  have a: "validateClaim
     (scenario_issues (Inr scenario_pr) (Inr (Some scenario_linked)) (Inr True)
        (Inl (Error ''timeout'')) (Inr True))
     (scenario_flags None None None) ''org/repo'' 50 ''alice'' getDefaultBountyConfig ((), [])
     = (\<lparr>isValid = True, linkedIssue = Some scenario_linked, errors = []\<rparr>,
        ((), [GetPullRequest ''org/repo'' 50, FindLinkedIssueWithBounty ''org/repo'' 50,
              WasUserEverAssigned ''org/repo'' 42 ''alice'',
              IsBountyAlreadyClaimed ''org/repo'' 42]))"
    by (simp add: validateClaim_def call_defs logged_def scenario_issues_def scenario_flags_def
        scenario_pr_def scenario_linked_def)
  have b: "validateClaim
     (scenario_issues (Inr (scenario_pr\<lparr>merged := False\<rparr>)) (Inr (Some scenario_linked))
        (Inr True) (Inr False) (Inr True))
     (scenario_flags None None None) ''org/repo'' 50 ''alice'' getDefaultBountyConfig ((), [])
     = (rejected not_merged_text, ((), [GetPullRequest ''org/repo'' 50]))"
    by (simp add: validateClaim_def call_defs logged_def scenario_issues_def scenario_flags_def
        scenario_pr_def)
  from validateClaim_five_checks [OF b]
  have c: "\<exists>n. prefix (new_calls ((), []) ((), [GetPullRequest ''org/repo'' 50]))
          (validation_calls (scenario_flags None None None) ''org/repo'' 50 ''alice'' n)"
    by (rule conjunct1)
  have d: "\<not> isValid (rejected not_merged_text)" by (simp add: rejected_def)
  from validateClaim_five_checks [OF b, THEN conjunct2, THEN conjunct2, THEN mp, OF d]
  have e: "linkedIssue (rejected not_merged_text) = None" by (rule conjunct1)
  from a b c d e show ?thesis by (simp add: new_calls_def)
qed

section \<open>The claim handler\<close>

text \<open>
  Claim C6. In a run of \<open>handleClaim\<close>, a \<open>releaseEscrow\<close> call is made only if the
  comment carried an argument, the argument parsed as a wallet address, and the
  validation run in that same state returned a valid result. When that validation
  returns a result that is not valid, the handler is the loop that posts the errors: the
  calls made after the validation are the comments of the validation errors on the pull
  request, of which there is at least one, and none of them is a call on the payment
  provider. The whole run makes no escrow call; what it asked of the payment provider is
  the parsing of the wallet address alone, before the validation started.
\<close>

theorem release_only_after_valid_claim:
  assumes run: "handleClaim m rd repo prNumber commenter body s = (r, s')"
  shows "((\<exists>c \<in> set (new_calls s s'). is_release c) \<longrightarrow>
            (\<exists>walletStr wallet s1 v s2.
               claim_argument body = Some walletStr
             \<and> call_parseWalletAddress (paymentProvider m) walletStr s = (Inr wallet, s1)
             \<and> validateClaim (issueProvider m) (securityConfig m) repo prNumber commenter
                  (bountyConfig m) s1 = (v, s2)
             \<and> isValid v))
       \<and> (\<forall>walletStr wallet s1 v s2.
             claim_argument body = Some walletStr
           \<and> call_parseWalletAddress (paymentProvider m) walletStr s = (Inr wallet, s1)
           \<and> validateClaim (issueProvider m) (securityConfig m) repo prNumber commenter
                (bountyConfig m) s1 = (v, s2)
           \<and> \<not> isValid v
           \<longrightarrow> (r, s') = postEach (issueProvider m) repo prNumber (errors v) s2
             \<and> errors v \<noteq> []
             \<and> new_calls s2 s' = map (PostComment repo prNumber) (errors v)
             \<and> (\<forall>c \<in> set (new_calls s2 s'). \<not> is_payment_call c)
             \<and> (\<forall>c \<in> set (new_calls s s'). \<not> is_escrow_call c)
             \<and> (\<forall>c \<in> set (new_calls s s').
                   is_payment_call c \<longrightarrow> c = ParseWalletAddress walletStr))"
proof (rule conjI)
  show "(\<exists>c \<in> set (new_calls s s'). is_release c) \<longrightarrow>
            (\<exists>walletStr wallet s1 v s2.
               claim_argument body = Some walletStr
             \<and> call_parseWalletAddress (paymentProvider m) walletStr s = (Inr wallet, s1)
             \<and> validateClaim (issueProvider m) (securityConfig m) repo prNumber commenter
                  (bountyConfig m) s1 = (v, s2)
             \<and> isValid v)"
    by (rule impI) (rule release_implies_valid [OF run])
next
  show "\<forall>walletStr wallet s1 v s2.
             claim_argument body = Some walletStr
           \<and> call_parseWalletAddress (paymentProvider m) walletStr s = (Inr wallet, s1)
           \<and> validateClaim (issueProvider m) (securityConfig m) repo prNumber commenter
                (bountyConfig m) s1 = (v, s2)
           \<and> \<not> isValid v
           \<longrightarrow> (r, s') = postEach (issueProvider m) repo prNumber (errors v) s2
             \<and> errors v \<noteq> []
             \<and> new_calls s2 s' = map (PostComment repo prNumber) (errors v)
             \<and> (\<forall>c \<in> set (new_calls s2 s'). \<not> is_payment_call c)
             \<and> (\<forall>c \<in> set (new_calls s s'). \<not> is_escrow_call c)
             \<and> (\<forall>c \<in> set (new_calls s s').
                   is_payment_call c \<longrightarrow> c = ParseWalletAddress walletStr)"
    by (intro allI impI, elim conjE, rule invalid_posts_errors [OF run])
qed

theorem release_only_after_valid_claim_witness:
  "handleClaim scenario_unmerged_manager scenario_rendering ''org/repo'' 50 ''alice''
     ''/claim 7xKXtg2C'' ((), [])
     = (Inr (), ((), [ParseWalletAddress ''7xKXtg2C'', GetPullRequest ''org/repo'' 50,
                      PostComment ''org/repo'' 50 not_merged_text]))
   \<and> claim_argument ''/claim 7xKXtg2C'' = Some ''7xKXtg2C''
   \<and> call_parseWalletAddress (paymentProvider scenario_unmerged_manager) ''7xKXtg2C'' ((), [])
       = (Inr 9, ((), [ParseWalletAddress ''7xKXtg2C'']))
   \<and> validateClaim (issueProvider scenario_unmerged_manager)
        (securityConfig scenario_unmerged_manager) ''org/repo'' 50 ''alice''
        (bountyConfig scenario_unmerged_manager) ((), [ParseWalletAddress ''7xKXtg2C''])
       = (rejected not_merged_text,
          ((), [ParseWalletAddress ''7xKXtg2C'', GetPullRequest ''org/repo'' 50]))
   \<and> \<not> isValid (rejected not_merged_text)
   \<and> new_calls ((), [ParseWalletAddress ''7xKXtg2C'', GetPullRequest ''org/repo'' 50])
              ((), [ParseWalletAddress ''7xKXtg2C'', GetPullRequest ''org/repo'' 50,
                    PostComment ''org/repo'' 50 not_merged_text])
            = map (PostComment ''org/repo'' 50) (errors (rejected not_merged_text))
   \<and> handleClaim scenario_merged_manager scenario_rendering ''org/repo'' 50 ''alice''
     ''/claim 7xKXtg2C'' ((), [])
     = (Inr (), ((), [ParseWalletAddress ''7xKXtg2C'', GetPullRequest ''org/repo'' 50,
                    FindLinkedIssueWithBounty ''org/repo'' 50,
                    WasUserEverAssigned ''org/repo'' 42 ''alice'',
                    IsBountyAlreadyClaimed ''org/repo'' 42,
                    GetRepositoryHash ''org/repo'',
                    ReleaseEscrow 42 (replicate 32 7) 9,
                    PostComment ''org/repo'' 50
                      (released_text scenario_rendering ''alice'' scenario_linked 9
                         (explorerUrl scenario_tx)),
                    PostComment ''org/repo'' 42
                      (claimed_text ''alice'' 50 (explorerUrl scenario_tx))]))
   \<and> (\<exists>walletStr wallet s1 v s2.
         claim_argument ''/claim 7xKXtg2C'' = Some walletStr
       \<and> call_parseWalletAddress (paymentProvider scenario_merged_manager) walletStr ((), [])
           = (Inr wallet, s1)
       \<and> validateClaim (issueProvider scenario_merged_manager)
            (securityConfig scenario_merged_manager) ''org/repo'' 50 ''alice''
            (bountyConfig scenario_merged_manager) s1 = (v, s2)
       \<and> isValid v)"
proof -
  have inv: "handleClaim scenario_unmerged_manager scenario_rendering ''org/repo'' 50 ''alice''
     ''/claim 7xKXtg2C'' ((), [])
     = (Inr (), ((), [ParseWalletAddress ''7xKXtg2C'', GetPullRequest ''org/repo'' 50,
                      PostComment ''org/repo'' 50 not_merged_text]))"
    by (simp add: handleClaim_def claim_argument_scenario validateClaim_def call_defs
        logged_def scenario_merged_manager_def
        scenario_unmerged_manager_def scenario_manager_def scenario_issues_def scenario_flags_def
        scenario_payments_def scenario_pr_def scenario_linked_def rejected_def)
  have p: "call_parseWalletAddress (paymentProvider scenario_unmerged_manager) ''7xKXtg2C''
             ((), [])
       = (Inr 9, ((), [ParseWalletAddress ''7xKXtg2C'']))"
    by (simp add: call_defs logged_def scenario_merged_manager_def
        scenario_unmerged_manager_def scenario_manager_def scenario_issues_def scenario_flags_def
        scenario_payments_def scenario_pr_def scenario_linked_def)
  have v: "validateClaim (issueProvider scenario_unmerged_manager)
        (securityConfig scenario_unmerged_manager) ''org/repo'' 50 ''alice''
        (bountyConfig scenario_unmerged_manager) ((), [ParseWalletAddress ''7xKXtg2C''])
       = (rejected not_merged_text,
          ((), [ParseWalletAddress ''7xKXtg2C'', GetPullRequest ''org/repo'' 50]))"
    by (simp add: validateClaim_def call_defs logged_def scenario_merged_manager_def
        scenario_unmerged_manager_def scenario_manager_def scenario_issues_def scenario_flags_def
        scenario_payments_def scenario_pr_def scenario_linked_def)
  have d: "\<not> isValid (rejected not_merged_text)" by (simp add: rejected_def)
  have val: "handleClaim scenario_merged_manager scenario_rendering ''org/repo'' 50 ''alice''
     ''/claim 7xKXtg2C'' ((), [])
     = (Inr (), ((), [ParseWalletAddress ''7xKXtg2C'', GetPullRequest ''org/repo'' 50,
                    FindLinkedIssueWithBounty ''org/repo'' 50,
                    WasUserEverAssigned ''org/repo'' 42 ''alice'',
                    IsBountyAlreadyClaimed ''org/repo'' 42,
                    GetRepositoryHash ''org/repo'',
                    ReleaseEscrow 42 (replicate 32 7) 9,
                    PostComment ''org/repo'' 50
                      (released_text scenario_rendering ''alice'' scenario_linked 9
                         (explorerUrl scenario_tx)),
                    PostComment ''org/repo'' 42
                      (claimed_text ''alice'' 50 (explorerUrl scenario_tx))]))"
    by (simp add: handleClaim_def claim_argument_scenario validateClaim_def
        handleClaim_release_def call_defs logged_def scenario_merged_manager_def
        scenario_unmerged_manager_def scenario_manager_def scenario_issues_def scenario_flags_def
        scenario_payments_def scenario_pr_def scenario_linked_def)
  have rel: "\<exists>c \<in> set (new_calls ((), [])
               ((), [ParseWalletAddress ''7xKXtg2C'', GetPullRequest ''org/repo'' 50,
                    FindLinkedIssueWithBounty ''org/repo'' 50,
                    WasUserEverAssigned ''org/repo'' 42 ''alice'',
                    IsBountyAlreadyClaimed ''org/repo'' 42,
                    GetRepositoryHash ''org/repo'',
                    ReleaseEscrow 42 (replicate 32 7) 9,
                    PostComment ''org/repo'' 50
                      (released_text scenario_rendering ''alice'' scenario_linked 9
                         (explorerUrl scenario_tx)),
                    PostComment ''org/repo'' 42
                      (claimed_text ''alice'' 50 (explorerUrl scenario_tx))])). is_release c"
    by (simp add: new_calls_def)
  from release_only_after_valid_claim [OF inv, THEN conjunct2, rule_format,
      OF conjI [OF claim_argument_scenario conjI [OF p conjI [OF v d]]]]
  have 1: "new_calls ((), [ParseWalletAddress ''7xKXtg2C'', GetPullRequest ''org/repo'' 50])
              ((), [ParseWalletAddress ''7xKXtg2C'', GetPullRequest ''org/repo'' 50,
                    PostComment ''org/repo'' 50 not_merged_text])
            = map (PostComment ''org/repo'' 50) (errors (rejected not_merged_text))"
    by blast
  from release_only_after_valid_claim [OF val, THEN conjunct1, rule_format, OF rel]
  have 2: "\<exists>walletStr wallet s1 v s2.
         claim_argument ''/claim 7xKXtg2C'' = Some walletStr
       \<and> call_parseWalletAddress (paymentProvider scenario_merged_manager) walletStr ((), [])
           = (Inr wallet, s1)
       \<and> validateClaim (issueProvider scenario_merged_manager)
            (securityConfig scenario_merged_manager) ''org/repo'' 50 ''alice''
            (bountyConfig scenario_merged_manager) s1 = (v, s2)
       \<and> isValid v" .
  from inv claim_argument_scenario p v d 1 val 2 show ?thesis by (intro conjI)
qed

text \<open>
  Claim C8. The argument is the second piece of the comment split at white space, that of
  the class \<open>\s\<close>. When the comment carries no argument after the command, the handler is
  exactly the posting of the usage comment on the pull request; when the argument does
  not parse as a wallet address, the handler is exactly the posting of the
  invalid-address comment, after the one attempt to parse. In both cases nothing else is
  called: no check of the validation pipeline, no escrow operation, no notification.
\<close>

theorem malformed_claim_gets_guidance_only:
  "(claim_argument body = None \<longrightarrow>
      handleClaim m rd repo prNumber commenter body s
        = call_postComment (issueProvider m) repo prNumber invalid_claim_command_text s
    \<and> new_calls s (snd (handleClaim m rd repo prNumber commenter body s))
        = [PostComment repo prNumber invalid_claim_command_text])
   \<and> (\<forall>walletStr e.
         claim_argument body = Some walletStr
       \<and> parseWalletAddress (paymentProvider m) walletStr = Inl e
       \<longrightarrow> handleClaim m rd repo prNumber commenter body s
             = call_postComment (issueProvider m) repo prNumber invalid_wallet_text
                 (fst s, snd s @ [ParseWalletAddress walletStr])
         \<and> new_calls s (snd (handleClaim m rd repo prNumber commenter body s))
             = [ParseWalletAddress walletStr, PostComment repo prNumber invalid_wallet_text])"
proof (rule conjI)
  show "claim_argument body = None \<longrightarrow>
      handleClaim m rd repo prNumber commenter body s
        = call_postComment (issueProvider m) repo prNumber invalid_claim_command_text s
    \<and> new_calls s (snd (handleClaim m rd repo prNumber commenter body s))
        = [PostComment repo prNumber invalid_claim_command_text]"
    by (rule impI) (rule missing_argument)
next
  show "\<forall>walletStr e.
         claim_argument body = Some walletStr
       \<and> parseWalletAddress (paymentProvider m) walletStr = Inl e
       \<longrightarrow> handleClaim m rd repo prNumber commenter body s
             = call_postComment (issueProvider m) repo prNumber invalid_wallet_text
                 (fst s, snd s @ [ParseWalletAddress walletStr])
         \<and> new_calls s (snd (handleClaim m rd repo prNumber commenter body s))
             = [ParseWalletAddress walletStr, PostComment repo prNumber invalid_wallet_text]"
    by (intro allI impI, elim conjE, rule unparseable_argument)
qed

theorem malformed_claim_gets_guidance_only_witness:
  "claim_argument ''/claim'' = None
   \<and> handleClaim scenario_merged_manager scenario_rendering ''org/repo'' 50 ''alice''
       ''/claim'' ((), [])
       = (Inr (), ((), [PostComment ''org/repo'' 50 invalid_claim_command_text]))
   \<and> claim_argument ''/claim wallet'' = Some ''wallet''
   \<and> parseWalletAddress (paymentProvider scenario_merged_manager) ''wallet''
       = Inl (Error ''Invalid Solana wallet address'')
   \<and> handleClaim scenario_merged_manager scenario_rendering ''org/repo'' 50 ''alice''
       ''/claim wallet'' ((), [])
       = (Inr (), ((), [ParseWalletAddress ''wallet'',
                        PostComment ''org/repo'' 50 invalid_wallet_text]))
   \<and> claim_argument (''/claim'' @ [CHR 0xC2, CHR 0xA0] @ ''wallet'') = Some ''wallet''
   \<and> handleClaim scenario_merged_manager scenario_rendering ''org/repo'' 50 ''alice''
       (''/claim'' @ [CHR 0xC2, CHR 0xA0] @ ''wallet'') ((), [])
       = (Inr (), ((), [ParseWalletAddress ''wallet'',
                        PostComment ''org/repo'' 50 invalid_wallet_text]))"
proof -
  have p: "parseWalletAddress (paymentProvider scenario_merged_manager) ''wallet''
       = Inl (Error ''Invalid Solana wallet address'')"
    by (simp add: scenario_merged_manager_def scenario_manager_def
        scenario_issues_def scenario_flags_def scenario_payments_def)
  from malformed_claim_gets_guidance_only
    [of "''/claim''" scenario_merged_manager scenario_rendering "''org/repo''" 50 "''alice''"
        "((), [])", THEN conjunct1, rule_format, OF claim_argument_missing]
  have 1: "handleClaim scenario_merged_manager scenario_rendering ''org/repo'' 50 ''alice''
       ''/claim'' ((), [])
       = (Inr (), ((), [PostComment ''org/repo'' 50 invalid_claim_command_text]))"
    by (simp add: call_defs logged_def scenario_merged_manager_def scenario_manager_def
        scenario_issues_def scenario_flags_def scenario_payments_def)
  from malformed_claim_gets_guidance_only
    [of "''/claim wallet''" scenario_merged_manager scenario_rendering "''org/repo''" 50
        "''alice''" "((), [])", THEN conjunct2, rule_format,
        OF conjI [OF claim_argument_unparseable p]]
  have 2: "handleClaim scenario_merged_manager scenario_rendering ''org/repo'' 50 ''alice''
       ''/claim wallet'' ((), [])
       = (Inr (), ((), [ParseWalletAddress ''wallet'',
                        PostComment ''org/repo'' 50 invalid_wallet_text]))"
    by (simp add: call_defs logged_def scenario_merged_manager_def scenario_manager_def
        scenario_issues_def scenario_flags_def scenario_payments_def)
  from malformed_claim_gets_guidance_only
    [of "''/claim'' @ [CHR 0xC2, CHR 0xA0] @ ''wallet''" scenario_merged_manager
        scenario_rendering "''org/repo''" 50 "''alice''" "((), [])", THEN conjunct2, rule_format,
        OF conjI [OF claim_argument_no_break_space p]]
  have 3: "handleClaim scenario_merged_manager scenario_rendering ''org/repo'' 50 ''alice''
       (''/claim'' @ [CHR 0xC2, CHR 0xA0] @ ''wallet'') ((), [])
       = (Inr (), ((), [ParseWalletAddress ''wallet'',
                        PostComment ''org/repo'' 50 invalid_wallet_text]))"
    by (simp add: call_defs logged_def scenario_merged_manager_def scenario_manager_def
        scenario_issues_def scenario_flags_def scenario_payments_def)
  from claim_argument_missing 1 claim_argument_unparseable p 2 claim_argument_no_break_space 3
  show ?thesis by (intro conjI)
qed

section \<open>The marker comment and its detection\<close>

text \<open>
  Claim C9, as amended. The comment that the manager posts on the linked issue after a
  successful release matches the claim-detection pattern. When the listing of the
  issue's comments succeeds and contains that comment written by an author of type
  \<open>Bot\<close>, \<open>isBountyAlreadyClaimed\<close> answers \<open>true\<close> exactly when every comment listed before
  the first one that a \<open>Bot\<close> wrote and that matches the pattern has an author; a later
  claim that passes checks 1 to 4 is then rejected by check 5 with the already-claimed
  text.
\<close>

theorem bot_marker_round_trip:
  assumes listing:
      "axios_get (''https://api.github.com/repos/'' @ repo @ ''/issues/'' @
                  number_text (li_number li) @ ''/comments'') w3 = (Inr comments, w4)"
    and marker:
      "\<lparr>ic_user_type = Some ''Bot'', ic_body = claimed_text who0 pr0 url0\<rparr> \<in> set comments"
    and detector: "isBountyAlreadyClaimed ip = GitHubProvider_isBountyAlreadyClaimed axios_get"
    and check1: "call_getPullRequest ip repo prNumber s = (Inr prData, s1)"
      "requireMergedPR config = Some False \<or> merged prData"
    and check2: "user_login prData = commenter"
    and check3: "call_findLinkedIssueWithBounty ip repo prNumber prData bc s1
                   = (Inr (Some li), s2)"
    and check4: "if skipAssignmentCheck config = Some True then (w3, t3) = s2
                 else call_wasUserEverAssigned ip repo (li_number li) commenter s2
                        = (Inr True, (w3, t3))"
  shows "claimPattern_test (claimed_text who0 pr0 url0)
       \<and> (\<forall>m rd wallet s0 s0'.
             handleClaim_release m rd repo pr0 who0 wallet (Some li) s0 = (Inr (), s0')
             \<longrightarrow> (\<exists>url. PostComment repo (li_number li) (claimed_text who0 pr0 url)
                          \<in> set (new_calls s0 s0')))
       \<and> ((GitHubProvider_isBountyAlreadyClaimed axios_get repo (li_number li) w3
              = (Inr True, w4))
          = (\<forall>c \<in> set (takeWhile (\<lambda>c. \<not> is_claim_marker c) comments).
               ic_user_type c \<noteq> None))
       \<and> ((\<forall>c \<in> set (takeWhile (\<lambda>c. \<not> is_claim_marker c) comments). ic_user_type c \<noteq> None)
            \<longrightarrow> validateClaim ip config repo prNumber commenter bc s
                  = (rejected (already_claimed_text (li_number li)),
                     (w4, t3 @ [IsBountyAlreadyClaimed repo (li_number li)])))"
proof -
  have d: "(GitHubProvider_isBountyAlreadyClaimed axios_get repo (li_number li) w3
              = (Inr True, w4))
          = (\<forall>c \<in> set (takeWhile (\<lambda>c. \<not> is_claim_marker c) comments).
               ic_user_type c \<noteq> None)"
    using listing marker by (rule detector_finds_bot_marker)
  have v: "validateClaim ip config repo prNumber commenter bc s
           = (rejected (already_claimed_text (li_number li)),
              (w4, t3 @ [IsBountyAlreadyClaimed repo (li_number li)]))"
    if "\<forall>c \<in> set (takeWhile (\<lambda>c. \<not> is_claim_marker c) comments). ic_user_type c \<noteq> None"
  proof -
    from that d
    have "GitHubProvider_isBountyAlreadyClaimed axios_get repo (li_number li) w3
            = (Inr True, w4)" by simp
    then have c5: "call_isBountyAlreadyClaimed ip repo (li_number li) (w3, t3)
             = (Inr True, (w4, t3 @ [IsBountyAlreadyClaimed repo (li_number li)]))"
      by (simp add: call_defs logged_def detector)
    from check1 check2 check3 check4 c5 show ?thesis by (rule validateClaim_already_claimed)
  qed
  have p: "\<forall>m rd wallet s0 s0'.
             handleClaim_release m rd repo pr0 who0 wallet (Some li) s0 = (Inr (), s0')
             \<longrightarrow> (\<exists>url. PostComment repo (li_number li) (claimed_text who0 pr0 url)
                          \<in> set (new_calls s0 s0'))"
    by (intro allI impI) (rule handleClaim_release_posts_marker)
  from claimPattern_test_claimed_text p d v show ?thesis by (intro conjI impI)
qed

theorem bot_marker_round_trip_witness:
  "scenario_listing [scenario_marker ''User'', scenario_marker ''Bot'', scenario_ghost]
      (''https://api.github.com/repos/'' @ ''org/repo'' @ ''/issues/'' @
         number_text (li_number scenario_linked) @ ''/comments'') ()
     = (Inr [scenario_marker ''User'', scenario_marker ''Bot'', scenario_ghost], ())
   \<and> scenario_marker ''Bot''
       \<in> set [scenario_marker ''User'', scenario_marker ''Bot'', scenario_ghost]
   \<and> takeWhile (\<lambda>c. \<not> is_claim_marker c)
        [scenario_marker ''User'', scenario_marker ''Bot'', scenario_ghost]
       = [scenario_marker ''User'']
   \<and> ic_user_type (scenario_marker ''User'') \<noteq> None
   \<and> GitHubProvider_isBountyAlreadyClaimed
        (scenario_listing [scenario_marker ''User'', scenario_marker ''Bot'', scenario_ghost])
        ''org/repo'' (li_number scenario_linked) () = (Inr True, ())
   \<and> validateClaim
        (scenario_github [scenario_marker ''User'', scenario_marker ''Bot'', scenario_ghost])
        (scenario_flags None None None) ''org/repo'' 50 ''alice'' getDefaultBountyConfig ((), [])
       = (rejected (already_claimed_text (li_number scenario_linked)),
          ((), [GetPullRequest ''org/repo'' 50, FindLinkedIssueWithBounty ''org/repo'' 50,
                WasUserEverAssigned ''org/repo'' 42 ''alice''] @
               [IsBountyAlreadyClaimed ''org/repo'' (li_number scenario_linked)]))"
proof -
  let ?cs = "[scenario_marker ''User'', scenario_marker ''Bot'', scenario_ghost]"
  have listing: "scenario_listing ?cs
      (''https://api.github.com/repos/'' @ ''org/repo'' @ ''/issues/'' @
         number_text (li_number scenario_linked) @ ''/comments'') ()
     = (Inr ?cs, ())"
    by (simp add: scenario_listing_def)
  have marker: "\<lparr>ic_user_type = Some ''Bot'',
      ic_body = claimed_text ''alice'' 50 (explorerUrl scenario_tx)\<rparr> \<in> set ?cs"
    by (simp add: scenario_marker_def)
  have bot: "is_claim_marker (scenario_marker ''Bot'')"
    by (simp add: is_claim_marker_def scenario_marker_def claimPattern_test_claimed_text)
  have user: "\<not> is_claim_marker (scenario_marker ''User'')"
    by (simp add: is_claim_marker_def scenario_marker_def)
  from bot user have first: "takeWhile (\<lambda>c. \<not> is_claim_marker c) ?cs = [scenario_marker ''User'']"
    by simp
  have author: "ic_user_type (scenario_marker ''User'') \<noteq> None"
    by (simp add: scenario_marker_def)
  from first author
  have order: "\<forall>c \<in> set (takeWhile (\<lambda>c. \<not> is_claim_marker c) ?cs). ic_user_type c \<noteq> None"
    by simp
  have detector: "isBountyAlreadyClaimed (scenario_github ?cs)
       = GitHubProvider_isBountyAlreadyClaimed (scenario_listing ?cs)"
    by (simp add: scenario_github_def)
  have check1: "call_getPullRequest (scenario_github ?cs) ''org/repo'' 50 ((), [])
      = (Inr scenario_pr, ((), [GetPullRequest ''org/repo'' 50]))"
    by (simp add: call_defs logged_def scenario_github_def scenario_issues_def)
  have merged: "requireMergedPR (scenario_flags None None None) = Some False \<or> merged scenario_pr"
    by (simp add: scenario_pr_def)
  have check2: "user_login scenario_pr = ''alice''" by (simp add: scenario_pr_def)
  have check3: "call_findLinkedIssueWithBounty (scenario_github ?cs) ''org/repo'' 50
       scenario_pr getDefaultBountyConfig ((), [GetPullRequest ''org/repo'' 50])
      = (Inr (Some scenario_linked),
         ((), [GetPullRequest ''org/repo'' 50, FindLinkedIssueWithBounty ''org/repo'' 50]))"
    by (simp add: call_defs logged_def scenario_github_def scenario_issues_def)
  have check4: "if skipAssignmentCheck (scenario_flags None None None) = Some True
      then ((), [GetPullRequest ''org/repo'' 50, FindLinkedIssueWithBounty ''org/repo'' 50,
                WasUserEverAssigned ''org/repo'' 42 ''alice''])
           = ((), [GetPullRequest ''org/repo'' 50, FindLinkedIssueWithBounty ''org/repo'' 50])
      else call_wasUserEverAssigned (scenario_github ?cs) ''org/repo''
             (li_number scenario_linked) ''alice''
             ((), [GetPullRequest ''org/repo'' 50, FindLinkedIssueWithBounty ''org/repo'' 50])
           = (Inr True,
              ((), [GetPullRequest ''org/repo'' 50, FindLinkedIssueWithBounty ''org/repo'' 50,
                WasUserEverAssigned ''org/repo'' 42 ''alice'']))"
    by (simp add: call_defs logged_def scenario_github_def scenario_issues_def
        scenario_flags_def scenario_linked_def)
  note t = bot_marker_round_trip [OF listing marker detector check1 merged check2
      check3 check4]
  from t [THEN conjunct2, THEN conjunct2, THEN conjunct1] order
  have found: "GitHubProvider_isBountyAlreadyClaimed (scenario_listing ?cs) ''org/repo''
        (li_number scenario_linked) () = (Inr True, ())"
    by simp
  from t [THEN conjunct2, THEN conjunct2, THEN conjunct2, THEN mp, OF order]
  have rejected: "validateClaim (scenario_github ?cs) (scenario_flags None None None)
        ''org/repo'' 50 ''alice'' getDefaultBountyConfig ((), [])
       = (rejected (already_claimed_text (li_number scenario_linked)),
          ((), [GetPullRequest ''org/repo'' 50, FindLinkedIssueWithBounty ''org/repo'' 50,
                WasUserEverAssigned ''org/repo'' 42 ''alice''] @
               [IsBountyAlreadyClaimed ''org/repo'' (li_number scenario_linked)]))" .
  have m: "scenario_marker ''Bot'' \<in> set ?cs" by simp
  from listing m first author found rejected show ?thesis by (intro conjI)
qed

text \<open>
  The claim as it stands takes the match of the pattern to be enough. The detector also
  asks that the author of the comment be of type \<open>Bot\<close>: the same marker comment written
  by an author of type \<open>User\<close> matches the pattern and is not detected, and the second
  claim is validated. And the detector reads the author's type of each comment in turn:
  when a comment without an author is listed before the marker that a \<open>Bot\<close> wrote, the
  detector raises, check 5 tolerates it, and the second claim is validated as well.
\<close>

theorem marker_by_a_user_is_not_detected:
  "claimPattern_test (ic_body (scenario_marker ''User''))
   \<and> GitHubProvider_isBountyAlreadyClaimed (scenario_listing [scenario_marker ''User''])
        ''org/repo'' 42 ()
       = (Inr False, ())
   \<and> validateClaim (scenario_github [scenario_marker ''User'']) (scenario_flags None None None)
        ''org/repo'' 50 ''alice'' getDefaultBountyConfig ((), [])
       = (\<lparr>isValid = True, linkedIssue = Some scenario_linked, errors = []\<rparr>,
          ((), [GetPullRequest ''org/repo'' 50, FindLinkedIssueWithBounty ''org/repo'' 50,
                WasUserEverAssigned ''org/repo'' 42 ''alice'',
                IsBountyAlreadyClaimed ''org/repo'' 42]))
   \<and> claimPattern_test (ic_body (scenario_marker ''Bot''))
   \<and> GitHubProvider_isBountyAlreadyClaimed
        (scenario_listing [scenario_ghost, scenario_marker ''Bot'']) ''org/repo'' 42 ()
       = (Inl (Error ''Failed to check claim status: Cannot read properties of null''), ())
   \<and> validateClaim (scenario_github [scenario_ghost, scenario_marker ''Bot''])
        (scenario_flags None None None) ''org/repo'' 50 ''alice'' getDefaultBountyConfig ((), [])
       = (\<lparr>isValid = True, linkedIssue = Some scenario_linked, errors = []\<rparr>,
          ((), [GetPullRequest ''org/repo'' 50, FindLinkedIssueWithBounty ''org/repo'' 50,
                WasUserEverAssigned ''org/repo'' 42 ''alice'',
                IsBountyAlreadyClaimed ''org/repo'' 42]))"
proof -
  have 1: "claimPattern_test (ic_body (scenario_marker ''User''))"
    by (simp add: scenario_marker_def claimPattern_test_claimed_text)
  have 2: "GitHubProvider_isBountyAlreadyClaimed (scenario_listing [scenario_marker ''User''])
        ''org/repo'' 42 ()
       = (Inr False, ())"
    by (simp add: GitHubProvider_isBountyAlreadyClaimed_def scenario_listing_def
        scenario_marker_def)
  have 3: "validateClaim (scenario_github [scenario_marker ''User''])
        (scenario_flags None None None) ''org/repo'' 50 ''alice'' getDefaultBountyConfig ((), [])
       = (\<lparr>isValid = True, linkedIssue = Some scenario_linked, errors = []\<rparr>,
          ((), [GetPullRequest ''org/repo'' 50, FindLinkedIssueWithBounty ''org/repo'' 50,
                WasUserEverAssigned ''org/repo'' 42 ''alice'',
                IsBountyAlreadyClaimed ''org/repo'' 42]))"
    using 2
    by (simp add: validateClaim_def call_defs logged_def scenario_github_def scenario_issues_def
        scenario_flags_def scenario_pr_def scenario_linked_def)
  have 4: "claimPattern_test (ic_body (scenario_marker ''Bot''))"
    by (simp add: scenario_marker_def claimPattern_test_claimed_text)
  have 5: "GitHubProvider_isBountyAlreadyClaimed
        (scenario_listing [scenario_ghost, scenario_marker ''Bot'']) ''org/repo'' 42 ()
       = (Inl (Error ''Failed to check claim status: Cannot read properties of null''), ())"
    by (simp add: GitHubProvider_isBountyAlreadyClaimed_def scenario_listing_def
        scenario_ghost_def)
  have 6: "validateClaim (scenario_github [scenario_ghost, scenario_marker ''Bot''])
        (scenario_flags None None None) ''org/repo'' 50 ''alice'' getDefaultBountyConfig ((), [])
       = (\<lparr>isValid = True, linkedIssue = Some scenario_linked, errors = []\<rparr>,
          ((), [GetPullRequest ''org/repo'' 50, FindLinkedIssueWithBounty ''org/repo'' 50,
                WasUserEverAssigned ''org/repo'' 42 ''alice'',
                IsBountyAlreadyClaimed ''org/repo'' 42]))"
    using 5
    by (simp add: validateClaim_def call_defs logged_def scenario_github_def scenario_issues_def
        scenario_flags_def scenario_pr_def scenario_linked_def)
  from 1 2 3 4 5 6 show ?thesis by (intro conjI)
qed

section \<open>The security flags\<close>

text \<open>
  Claim C10. For a label event with all its fields, the maintainer check is the first
  call of the handler and a sender who is not a maintainer gets the rejection comment,
  unless \<open>requireMaintainerForBountyCreation\<close> is the explicit \<open>false\<close>, in which case the
  check is never called. A pull request that is not merged is rejected by the first
  check unless \<open>requireMergedPR\<close> is the explicit \<open>false\<close>, in which case it is validated
  when the other checks pass. When checks 1 to 3 pass, the assignment lookup is the third
  call and a commenter who was never assigned is rejected, unless \<open>skipAssignmentCheck\<close>
  is the explicit \<open>true\<close>, in which case the lookup is not called. A flag that the
  configuration leaves out is neither of the explicit values, so its check runs.
\<close>

theorem security_defaults_are_fail_secure:
  "(issue_number payload = Some n \<and> n \<noteq> 0
      \<and> repository_full_name payload = Some repo \<and> repo \<noteq> []
      \<and> label_name payload = Some label \<and> label \<noteq> []
      \<and> sender_login payload = Some sender \<and> sender \<noteq> []
    \<longrightarrow> (requireMaintainerForBountyCreation (securityConfig m) \<noteq> Some False
          \<longrightarrow> take 1 (new_calls sL (snd (handleLabeled m rd payload sL)))
                = [CheckIsMaintainer repo sender]
            \<and> (\<forall>s1. call_checkIsMaintainer (issueProvider m) repo sender sL = (Inr False, s1)
                  \<longrightarrow> handleLabeled m rd payload sL
                        = call_postComment (issueProvider m) repo n
                            ''Only repository maintainers can create bounties.'' s1))
      \<and> (requireMaintainerForBountyCreation (securityConfig m) = Some False
          \<longrightarrow> (\<forall>c \<in> set (new_calls sL (snd (handleLabeled m rd payload sL))).
                 \<forall>a b. c \<noteq> CheckIsMaintainer a b)))
   \<and> (call_getPullRequest ip repo prNumber s = (Inr prData, s1)
      \<longrightarrow> (\<not> merged prData \<and> requireMergedPR config \<noteq> Some False
            \<longrightarrow> validateClaim ip config repo prNumber commenter bc s
                  = (rejected not_merged_text, s1))
        \<and> (\<forall>li s2 s3 r5 s4.
              \<not> merged prData \<and> requireMergedPR config = Some False
            \<and> user_login prData = commenter
            \<and> call_findLinkedIssueWithBounty ip repo prNumber prData bc s1
                 = (Inr (Some li), s2)
            \<and> (if skipAssignmentCheck config = Some True then s3 = s2
                else call_wasUserEverAssigned ip repo (li_number li) commenter s2
                       = (Inr True, s3))
            \<and> call_isBountyAlreadyClaimed ip repo (li_number li) s3 = (r5, s4)
            \<and> r5 \<noteq> Inr True
            \<longrightarrow> validateClaim ip config repo prNumber commenter bc s
                  = (\<lparr>isValid = True, linkedIssue = Some li, errors = []\<rparr>, s4))
        \<and> (\<forall>li s2.
              (requireMergedPR config = Some False \<or> merged prData)
            \<and> user_login prData = commenter
            \<and> call_findLinkedIssueWithBounty ip repo prNumber prData bc s1
                 = (Inr (Some li), s2)
            \<longrightarrow> (skipAssignmentCheck config \<noteq> Some True
                  \<longrightarrow> take 3 (new_calls s
                               (snd (validateClaim ip config repo prNumber commenter bc s)))
                        = [GetPullRequest repo prNumber,
                           FindLinkedIssueWithBounty repo prNumber,
                           WasUserEverAssigned repo (li_number li) commenter]
                    \<and> (\<forall>s3. call_wasUserEverAssigned ip repo (li_number li) commenter s2
                               = (Inr False, s3)
                          \<longrightarrow> validateClaim ip config repo prNumber commenter bc s
                                = (rejected (not_assigned_text commenter (li_number li)),
                                   s3)))
              \<and> (skipAssignmentCheck config = Some True
                  \<longrightarrow> new_calls s (snd (validateClaim ip config repo prNumber commenter bc s))
                        = [GetPullRequest repo prNumber,
                           FindLinkedIssueWithBounty repo prNumber,
                           IsBountyAlreadyClaimed repo (li_number li)])))"
proof (intro conjI impI allI)
  assume "issue_number payload = Some n \<and> n \<noteq> 0
      \<and> repository_full_name payload = Some repo \<and> repo \<noteq> []
      \<and> label_name payload = Some label \<and> label \<noteq> []
      \<and> sender_login payload = Some sender \<and> sender \<noteq> []"
    and "requireMaintainerForBountyCreation (securityConfig m) \<noteq> Some False"
  then have e: "take 1 (new_calls sL (snd (handleLabeled m rd payload sL)))
                = [CheckIsMaintainer repo sender]
            \<and> (\<forall>s1. call_checkIsMaintainer (issueProvider m) repo sender sL = (Inr False, s1)
                  \<longrightarrow> handleLabeled m rd payload sL
                        = call_postComment (issueProvider m) repo n
                            ''Only repository maintainers can create bounties.'' s1)"
    by (elim conjE) (rule labeled_check_enabled)
  from e show "take 1 (new_calls sL (snd (handleLabeled m rd payload sL)))
                = [CheckIsMaintainer repo sender]" ..
  fix s1
  assume "call_checkIsMaintainer (issueProvider m) repo sender sL = (Inr False, s1)"
  with e show "handleLabeled m rd payload sL
                        = call_postComment (issueProvider m) repo n
                            ''Only repository maintainers can create bounties.'' s1" by blast
next
  assume "issue_number payload = Some n \<and> n \<noteq> 0
      \<and> repository_full_name payload = Some repo \<and> repo \<noteq> []
      \<and> label_name payload = Some label \<and> label \<noteq> []
      \<and> sender_login payload = Some sender \<and> sender \<noteq> []"
    and "requireMaintainerForBountyCreation (securityConfig m) = Some False"
  then show "\<forall>c \<in> set (new_calls sL (snd (handleLabeled m rd payload sL))).
                 \<forall>a b. c \<noteq> CheckIsMaintainer a b"
    by (elim conjE) (rule labeled_check_disabled)
next
  assume "call_getPullRequest ip repo prNumber s = (Inr prData, s1)"
    and "\<not> merged prData \<and> requireMergedPR config \<noteq> Some False"
  then show "validateClaim ip config repo prNumber commenter bc s
                  = (rejected not_merged_text, s1)"
    by (elim conjE) (rule merged_check_enabled)
next
  fix li s2 s3 r5 s4
  assume "call_getPullRequest ip repo prNumber s = (Inr prData, s1)"
    and "\<not> merged prData \<and> requireMergedPR config = Some False
            \<and> user_login prData = commenter
            \<and> call_findLinkedIssueWithBounty ip repo prNumber prData bc s1
                 = (Inr (Some li), s2)
            \<and> (if skipAssignmentCheck config = Some True then s3 = s2
                else call_wasUserEverAssigned ip repo (li_number li) commenter s2
                       = (Inr True, s3))
            \<and> call_isBountyAlreadyClaimed ip repo (li_number li) s3 = (r5, s4)
            \<and> r5 \<noteq> Inr True"
  then show "validateClaim ip config repo prNumber commenter bc s
                  = (\<lparr>isValid = True, linkedIssue = Some li, errors = []\<rparr>, s4)"
    by (elim conjE) (rule validateClaim_all_pass, simp_all)
next
  fix li s2
  assume c1: "call_getPullRequest ip repo prNumber s = (Inr prData, s1)"
    and h: "(requireMergedPR config = Some False \<or> merged prData)
            \<and> user_login prData = commenter
            \<and> call_findLinkedIssueWithBounty ip repo prNumber prData bc s1
                 = (Inr (Some li), s2)"
    and on: "skipAssignmentCheck config \<noteq> Some True"
  from h have h1: "requireMergedPR config = Some False \<or> merged prData"
    and h2: "user_login prData = commenter"
    and h3: "call_findLinkedIssueWithBounty ip repo prNumber prData bc s1
                 = (Inr (Some li), s2)" by simp_all
  note e = assignment_check_enabled [OF c1 h1 h2 h3 on]
  from e show "take 3 (new_calls s
                               (snd (validateClaim ip config repo prNumber commenter bc s)))
                        = [GetPullRequest repo prNumber,
                           FindLinkedIssueWithBounty repo prNumber,
                           WasUserEverAssigned repo (li_number li) commenter]" ..
  fix s3
  assume "call_wasUserEverAssigned ip repo (li_number li) commenter s2
                               = (Inr False, s3)"
  with e show "validateClaim ip config repo prNumber commenter bc s
                                = (rejected (not_assigned_text commenter (li_number li)),
                                   s3)" by blast
next
  fix li s2
  assume c1: "call_getPullRequest ip repo prNumber s = (Inr prData, s1)"
    and h: "(requireMergedPR config = Some False \<or> merged prData)
            \<and> user_login prData = commenter
            \<and> call_findLinkedIssueWithBounty ip repo prNumber prData bc s1
                 = (Inr (Some li), s2)"
    and off: "skipAssignmentCheck config = Some True"
  from h have h1: "requireMergedPR config = Some False \<or> merged prData"
    and h2: "user_login prData = commenter"
    and h3: "call_findLinkedIssueWithBounty ip repo prNumber prData bc s1
                 = (Inr (Some li), s2)" by simp_all
  show "new_calls s (snd (validateClaim ip config repo prNumber commenter bc s))
                        = [GetPullRequest repo prNumber,
                           FindLinkedIssueWithBounty repo prNumber,
                           IsBountyAlreadyClaimed repo (li_number li)]"
    by (rule assignment_check_skipped [OF c1 h1 h2 h3 off])
qed

theorem security_defaults_are_fail_secure_witness:
  "requireMaintainerForBountyCreation (securityConfig scenario_outsider_manager) = None
   \<and> handleLabeled scenario_outsider_manager scenario_rendering scenario_labeled ((), [])
       = (Inr (), ((), [CheckIsMaintainer ''org/repo'' ''carol'',
                        PostComment ''org/repo'' 42
                          ''Only repository maintainers can create bounties.'']))
   \<and> requireMergedPR (scenario_flags None None None) = None
   \<and> validateClaim scenario_unmerged_issues (scenario_flags None None None) ''org/repo'' 50
        ''alice'' getDefaultBountyConfig ((), [])
       = (rejected not_merged_text, ((), [GetPullRequest ''org/repo'' 50]))
   \<and> skipAssignmentCheck (scenario_flags None None None) = None
   \<and> validateClaim scenario_unassigned_issues (scenario_flags None None None) ''org/repo'' 50
        ''alice'' getDefaultBountyConfig ((), [])
       = (rejected (not_assigned_text ''alice'' 42),
          ((), [GetPullRequest ''org/repo'' 50, FindLinkedIssueWithBounty ''org/repo'' 50,
                WasUserEverAssigned ''org/repo'' 42 ''alice'']))"
proof -
  have payload: "issue_number scenario_labeled = Some 42 \<and> (42::int) \<noteq> 0
      \<and> repository_full_name scenario_labeled = Some ''org/repo'' \<and> ''org/repo'' \<noteq> []
      \<and> label_name scenario_labeled = Some ''bounty-2-sol'' \<and> ''bounty-2-sol'' \<noteq> []
      \<and> sender_login scenario_labeled = Some ''carol'' \<and> ''carol'' \<noteq> []"
    by (simp add: scenario_labeled_def)
  have f1: "requireMaintainerForBountyCreation (securityConfig scenario_outsider_manager)
              \<noteq> Some False"
    by (simp add: scenario_outsider_manager_def scenario_manager_def
        scenario_issues_def scenario_flags_def scenario_payments_def scenario_pr_def
        scenario_linked_def scenario_unassigned_issues_def scenario_unmerged_issues_def
        scenario_labeled_def)
  have m: "call_checkIsMaintainer (issueProvider scenario_outsider_manager) ''org/repo''
             ''carol'' ((), [])
           = (Inr False, ((), [CheckIsMaintainer ''org/repo'' ''carol'']))"
    by (simp add: call_defs logged_def scenario_outsider_manager_def scenario_manager_def
        scenario_issues_def scenario_flags_def scenario_payments_def scenario_pr_def
        scenario_linked_def scenario_unassigned_issues_def scenario_unmerged_issues_def
        scenario_labeled_def)
  from security_defaults_are_fail_secure
    [where payload = scenario_labeled and m = scenario_outsider_manager and sL = "((), [])"
       and rd = scenario_rendering,
     THEN conjunct1, rule_format, OF payload, THEN conjunct1, rule_format, OF f1,
     THEN conjunct2, rule_format, OF m]
  have 1: "handleLabeled scenario_outsider_manager scenario_rendering scenario_labeled ((), [])
       = (Inr (), ((), [CheckIsMaintainer ''org/repo'' ''carol'',
                        PostComment ''org/repo'' 42
                          ''Only repository maintainers can create bounties.'']))"
    by (simp add: call_defs logged_def scenario_outsider_manager_def scenario_manager_def
        scenario_issues_def scenario_flags_def scenario_payments_def scenario_pr_def
        scenario_linked_def scenario_unassigned_issues_def scenario_unmerged_issues_def
        scenario_labeled_def)
  have g: "call_getPullRequest scenario_unmerged_issues ''org/repo'' 50 ((), [])
          = (Inr (scenario_pr\<lparr>merged := False\<rparr>), ((), [GetPullRequest ''org/repo'' 50]))"
    by (simp add: call_defs logged_def scenario_outsider_manager_def scenario_manager_def
        scenario_issues_def scenario_flags_def scenario_payments_def scenario_pr_def
        scenario_linked_def scenario_unassigned_issues_def scenario_unmerged_issues_def
        scenario_labeled_def)
  have f2: "\<not> merged (scenario_pr\<lparr>merged := False\<rparr>)
            \<and> requireMergedPR (scenario_flags None None None) \<noteq> Some False"
    by (simp add: scenario_outsider_manager_def scenario_manager_def
        scenario_issues_def scenario_flags_def scenario_payments_def scenario_pr_def
        scenario_linked_def scenario_unassigned_issues_def scenario_unmerged_issues_def
        scenario_labeled_def)
  from security_defaults_are_fail_secure
    [where ip = scenario_unmerged_issues and s = "((), [])"
       and config = "scenario_flags None None None",
     THEN conjunct2, rule_format, OF g, THEN conjunct1, rule_format, OF f2]
  have 2: "validateClaim scenario_unmerged_issues (scenario_flags None None None) ''org/repo'' 50
        ''alice'' getDefaultBountyConfig ((), [])
       = (rejected not_merged_text, ((), [GetPullRequest ''org/repo'' 50]))" .
  have g': "call_getPullRequest scenario_unassigned_issues ''org/repo'' 50 ((), [])
          = (Inr scenario_pr, ((), [GetPullRequest ''org/repo'' 50]))"
    by (simp add: call_defs logged_def scenario_outsider_manager_def scenario_manager_def
        scenario_issues_def scenario_flags_def scenario_payments_def scenario_pr_def
        scenario_linked_def scenario_unassigned_issues_def scenario_unmerged_issues_def
        scenario_labeled_def)
  have c3: "(requireMergedPR (scenario_flags None None None) = Some False \<or> merged scenario_pr)
        \<and> user_login scenario_pr = ''alice''
        \<and> call_findLinkedIssueWithBounty scenario_unassigned_issues ''org/repo'' 50 scenario_pr
            getDefaultBountyConfig ((), [GetPullRequest ''org/repo'' 50])
          = (Inr (Some scenario_linked),
             ((), [GetPullRequest ''org/repo'' 50, FindLinkedIssueWithBounty ''org/repo'' 50]))"
    by (simp add: call_defs logged_def scenario_outsider_manager_def scenario_manager_def
        scenario_issues_def scenario_flags_def scenario_payments_def scenario_pr_def
        scenario_linked_def scenario_unassigned_issues_def scenario_unmerged_issues_def
        scenario_labeled_def)
  have f3: "skipAssignmentCheck (scenario_flags None None None) \<noteq> Some True"
    by (simp add: scenario_outsider_manager_def scenario_manager_def
        scenario_issues_def scenario_flags_def scenario_payments_def scenario_pr_def
        scenario_linked_def scenario_unassigned_issues_def scenario_unmerged_issues_def
        scenario_labeled_def)
  have c4: "call_wasUserEverAssigned scenario_unassigned_issues ''org/repo''
              (li_number scenario_linked) ''alice''
              ((), [GetPullRequest ''org/repo'' 50, FindLinkedIssueWithBounty ''org/repo'' 50])
          = (Inr False,
             ((), [GetPullRequest ''org/repo'' 50, FindLinkedIssueWithBounty ''org/repo'' 50,
                   WasUserEverAssigned ''org/repo'' 42 ''alice'']))"
    by (simp add: call_defs logged_def scenario_outsider_manager_def scenario_manager_def
        scenario_issues_def scenario_flags_def scenario_payments_def scenario_pr_def
        scenario_linked_def scenario_unassigned_issues_def scenario_unmerged_issues_def
        scenario_labeled_def)
  from security_defaults_are_fail_secure
    [where ip = scenario_unassigned_issues and s = "((), [])"
       and config = "scenario_flags None None None",
     THEN conjunct2, rule_format, OF g', THEN conjunct2, THEN conjunct2, rule_format, OF c3,
     THEN conjunct1, rule_format, OF f3, THEN conjunct2, rule_format, OF c4]
  have 3: "validateClaim scenario_unassigned_issues (scenario_flags None None None) ''org/repo'' 50
        ''alice'' getDefaultBountyConfig ((), [])
       = (rejected (not_assigned_text ''alice'' 42),
          ((), [GetPullRequest ''org/repo'' 50, FindLinkedIssueWithBounty ''org/repo'' 50,
                WasUserEverAssigned ''org/repo'' 42 ''alice'']))"
    by (simp add: scenario_linked_def)
  have n1: "requireMaintainerForBountyCreation (securityConfig scenario_outsider_manager) = None"
    by (simp add: scenario_outsider_manager_def scenario_manager_def
        scenario_issues_def scenario_flags_def scenario_payments_def scenario_pr_def
        scenario_linked_def scenario_unassigned_issues_def scenario_unmerged_issues_def
        scenario_labeled_def)
  have n2: "requireMergedPR (scenario_flags None None None) = None"
    by (simp add: scenario_outsider_manager_def scenario_manager_def
        scenario_issues_def scenario_flags_def scenario_payments_def scenario_pr_def
        scenario_linked_def scenario_unassigned_issues_def scenario_unmerged_issues_def
        scenario_labeled_def)
  have n3: "skipAssignmentCheck (scenario_flags None None None) = None"
    by (simp add: scenario_outsider_manager_def scenario_manager_def
        scenario_issues_def scenario_flags_def scenario_payments_def scenario_pr_def
        scenario_linked_def scenario_unassigned_issues_def scenario_unmerged_issues_def
        scenario_labeled_def)
  from n1 1 n2 2 n3 3 show ?thesis by (intro conjI)
qed

end
